theory Spec2Isabelle
  imports Complex_Main
begin

section \<open>PetPal: entity stores, reconciliation and reminder triggers\<close>

text \<open>
  A shallow embedding of the offline-first stores of the PetPal application
  (\<^verbatim>\<open>src/stores/petStore.ts\<close>, \<^verbatim>\<open>appointmentStore.ts\<close>,
  \<^verbatim>\<open>notificationStore.ts\<close>), of the notification service
  (\<^verbatim>\<open>src/services/notification.service.ts\<close>) and of the weekday formatting
  helpers of the reminder screens.

  Every store action is an \<^verbatim>\<open>async\<close> function over a zustand state. It is modelled
  as a function from the state before the call to the value the promise resolves to, the
  state after the call and the list of Remote Gateway calls it issued. What the action
  reads from outside (the signed-in user, the configuration, the clock and the answers
  of the Gateway) is its first argument.
\<close>

subsection \<open>JavaScript helpers\<close>

text \<open>\<^verbatim>\<open>s.startsWith(p)\<close>.\<close>

definition startsWith :: "string \<Rightarrow> string \<Rightarrow> bool" where
  "startsWith s p = (take (length p) s = p)"

text \<open>The decimal rendering of a non-negative integer inside a template literal.\<close>

definition digit_char :: "nat \<Rightarrow> char" where
  "digit_char d = ''0123456789'' ! d"

function string_of_nat :: "nat \<Rightarrow> string" where
  "string_of_nat n =
     (if n < 10 then [digit_char n] else string_of_nat (n div 10) @ [digit_char (n mod 10)])"
  by pat_completeness auto
termination
  by (relation "measure (\<lambda>n. n)") auto

declare string_of_nat.simps [simp del]

text \<open>
  \<^verbatim>\<open>xs[i]\<close> on an array: \<^verbatim>\<open>undefined\<close> (here \<open>None\<close>) outside the array.
  \<^verbatim>\<open>Array.prototype.join\<close> renders \<^verbatim>\<open>undefined\<close> as the empty string.
\<close>

definition js_index :: "'a list \<Rightarrow> int \<Rightarrow> 'a option" where
  "js_index xs i = (if 0 \<le> i \<and> i < int (length xs) then Some (xs ! nat i) else None)"

fun join :: "string \<Rightarrow> string option list \<Rightarrow> string" where
  "join sep [] = []"
| "join sep [x] = (case x of None \<Rightarrow> [] | Some s \<Rightarrow> s)"
| "join sep (x # y # ys) = (case x of None \<Rightarrow> [] | Some s \<Rightarrow> s) @ sep @ join sep (y # ys)"

subsection \<open>Weekday summaries (\<^verbatim>\<open>app/reminders.tsx\<close>, notification settings screen)\<close>

definition DAYS_SHORT :: "string list" where
  "DAYS_SHORT = [''Sun'', ''Mon'', ''Tue'', ''Wed'', ''Thu'', ''Fri'', ''Sat'']"

definition formatDays :: "int list \<Rightarrow> string" where
  "formatDays days =
     (if length days = 7 then ''Every day''
      else if length days = 5 \<and> 0 \<notin> set days \<and> 6 \<notin> set days then ''Weekdays''
      else if length days = 2 \<and> 0 \<in> set days \<and> 6 \<in> set days then ''Weekends''
      else join '', '' (map (\<lambda>d. js_index DAYS_SHORT d) days))"

text \<open>
  The settings screen has its own copy, written against weekdays numbered from 1
  (\<^verbatim>\<open>dayNames[d - 1]\<close>).
\<close>

definition getDayLabels :: "int list \<Rightarrow> string" where
  "getDayLabels days =
     (let dayNames = [''Sun'', ''Mon'', ''Tue'', ''Wed'', ''Thu'', ''Fri'', ''Sat''] in
      if length days = 7 then ''Every day''
      else if length days = 5 \<and> 1 \<notin> set days \<and> 7 \<notin> set days then ''Weekdays''
      else if length days = 2 \<and> 1 \<in> set days \<and> 7 \<in> set days then ''Weekends''
      else join '', '' (map (\<lambda>d. js_index dayNames (d - 1)) days))"

text \<open>
  The day abbreviations in canonical (Sunday-first) order of a set of weekdays: what the
  specification asks of the fall-through case.
\<close>

definition canonical_labels :: "int set \<Rightarrow> string" where
  "canonical_labels D = join '', '' (map (\<lambda>d. js_index DAYS_SHORT d) (filter (\<lambda>d. d \<in> D) [0, 1, 2, 3, 4, 5, 6]))"

subsection \<open>The outside world of a store action\<close>

text \<open>
  A Gateway call (\<^verbatim>\<open>src/services/database.ts\<close>) resolves to \<^verbatim>\<open>{ data, error }\<close>
  or rejects; a rejection carries the message of the thrown \<^verbatim>\<open>Error\<close>, if it is one.
  The conversion between the snake-case rows of the backend and the records of the
  stores (\<^verbatim>\<open>recordToPet\<close> and its siblings) is part of the answer: \<open>db_data\<close> is the
  converted record.
\<close>

datatype 'a outcome = Resolved 'a | Rejected "string option"

record 'a db_result =
  db_data :: "'a option"
  db_error :: "string option"

text \<open>
  The Gateway calls an action issues. A create carries the table and the store record
  its row is built from (the argument of \<^verbatim>\<open>petToRecord\<close> and its siblings); an update
  or a remove carries the table and the row id; an upsert the table.
\<close>

datatype 'a gw_call =
  DbCreate string 'a
  | DbUpdate string string
  | DbRemove string string
  | DbUpsert string

text \<open>
  \<open>supabase_configured\<close> is \<^verbatim>\<open>isSupabaseConfigured()\<close>: the URL and the key are both
  non-empty. \<open>current_user\<close>: \<^verbatim>\<open>auth.getUser()\<close> gave a user and no error.
  \<open>date_now\<close> is \<^verbatim>\<open>Date.now()\<close> and \<open>iso_now\<close> is \<^verbatim>\<open>new Date().toISOString()\<close>,
  both read once per action. \<open>db_answer k\<close> is the answer to the \<open>k\<close>-th Gateway call
  of the action, counted from 0.
\<close>

record 'a env =
  supabase_configured :: bool
  client_error :: string
  current_user :: bool
  date_now :: nat
  iso_now :: string
  db_answer :: "nat \<Rightarrow> 'a db_result outcome"

text \<open>
  \<open>getCurrentUser\<close> (the Supabase service). It has no \<^verbatim>\<open>try\<close> and builds the client
  on first use: \<^verbatim>\<open>createClient(SUPABASE_URL, SUPABASE_ANON_KEY)\<close> throws when either
  is empty (\<open>client_error\<close> is the message), no client is kept, and so the call
  rejects every time on a device that is not configured. With a client it resolves to
  the user, or to \<^verbatim>\<open>null\<close> when \<^verbatim>\<open>auth.getUser()\<close> reports an error.
\<close>

definition getCurrentUser :: "'a env \<Rightarrow> bool outcome" where
  "getCurrentUser e =
     (if supabase_configured e then Resolved (current_user e)
      else Rejected (Some (client_error e)))"

definition catch_message :: "string option \<Rightarrow> string \<Rightarrow> string" where
  "catch_message m fallback = (case m of Some msg \<Rightarrow> msg | None \<Rightarrow> fallback)"

subsection \<open>Pets (\<^verbatim>\<open>src/stores/petStore.ts\<close>)\<close>

datatype gender = Male | Female

record pet =
  p_id :: string
  p_name :: string
  p_species :: string
  p_breed :: string
  p_age :: real
  p_weight :: real
  p_imageUrl :: "string option"
  p_gender :: "gender option"
  p_color :: "string option"
  p_microchipId :: "string option"
  p_notes :: "string option"
  p_createdAt :: "string option"
  p_updatedAt :: "string option"

text \<open>
  \<^verbatim>\<open>Partial<Pet>\<close> as the edit form builds it: a field is \<open>None\<close> when the key is
  absent; an optional field can be present with the value \<^verbatim>\<open>undefined\<close>. No caller
  passes \<^verbatim>\<open>id\<close>, \<^verbatim>\<open>createdAt\<close> or \<^verbatim>\<open>updatedAt\<close>.
\<close>

record pet_partial =
  pp_name :: "string option"
  pp_species :: "string option"
  pp_breed :: "string option"
  pp_age :: "real option"
  pp_weight :: "real option"
  pp_imageUrl :: "string option option"
  pp_gender :: "gender option option"
  pp_color :: "string option option"
  pp_microchipId :: "string option option"
  pp_notes :: "string option option"

definition spread :: "'a \<Rightarrow> 'a option \<Rightarrow> 'a" where
  "spread old new = (case new of None \<Rightarrow> old | Some v \<Rightarrow> v)"

text \<open>\<^verbatim>\<open>{ ...pet, ...data, updatedAt: new Date().toISOString() }\<close>\<close>

definition pet_merge :: "pet \<Rightarrow> pet_partial \<Rightarrow> string \<Rightarrow> pet" where
  "pet_merge p d stamp =
     p\<lparr>p_name := spread (p_name p) (pp_name d),
       p_species := spread (p_species p) (pp_species d),
       p_breed := spread (p_breed p) (pp_breed d),
       p_age := spread (p_age p) (pp_age d),
       p_weight := spread (p_weight p) (pp_weight d),
       p_imageUrl := spread (p_imageUrl p) (pp_imageUrl d),
       p_gender := spread (p_gender p) (pp_gender d),
       p_color := spread (p_color p) (pp_color d),
       p_microchipId := spread (p_microchipId p) (pp_microchipId d),
       p_notes := spread (p_notes p) (pp_notes d),
       p_updatedAt := Some stamp\<rparr>"

record pet_state =
  pets :: "pet list"
  loading :: bool
  error :: "string option"
  lastSyncedAt :: "string option"
  pendingChanges :: bool

text \<open>
  \<open>addPet\<close>. The argument is \<^verbatim>\<open>Omit<Pet, 'id' | 'createdAt' | 'updatedAt'>\<close>: a
  \<open>pet\<close> whose three omitted fields are overwritten by the offline branch. Every
  \<^verbatim>\<open>await\<close> of the action is inside its \<^verbatim>\<open>try\<close>: a rejection of
  \<open>getCurrentUser\<close> or of the Gateway call ends in the \<^verbatim>\<open>catch\<close> block.
\<close>

definition addPet_offline :: "pet env \<Rightarrow> pet \<Rightarrow> pet_state \<Rightarrow> string option \<times> pet_state" where
  "addPet_offline e petData s =
     (let newPet = petData\<lparr>p_id := ''local_'' @ string_of_nat (date_now e),
                           p_createdAt := Some (iso_now e),
                           p_updatedAt := Some (iso_now e)\<rparr>
      in (Some (p_id newPet), s\<lparr>pets := newPet # pets s, loading := False, pendingChanges := True\<rparr>))"

definition addPet :: "pet env \<Rightarrow> pet \<Rightarrow> pet_state \<Rightarrow> string option \<times> pet_state \<times> pet gw_call list" where
  "addPet e petData s0 =
     (let s = s0\<lparr>loading := True, error := None\<rparr> in
      case getCurrentUser e of
        Rejected m \<Rightarrow>
          (None, s\<lparr>error := Some (catch_message m ''Failed to add pet''), loading := False\<rparr>, [])
      | Resolved user \<Rightarrow>
          if user \<and> supabase_configured e then
            (case db_answer e 0 of
               Rejected m \<Rightarrow>
                 (None, s\<lparr>error := Some (catch_message m ''Failed to add pet''), loading := False\<rparr>,
                  [DbCreate ''pets'' petData])
             | Resolved r \<Rightarrow>
                 (case db_error r of
                    Some err \<Rightarrow>
                      (None, s\<lparr>loading := False, error := Some ''Failed to save pet''\<rparr>,
                       [DbCreate ''pets'' petData])
                  | None \<Rightarrow>
                      (case db_data r of
                         Some newPet \<Rightarrow>
                           (Some (p_id newPet),
                            s\<lparr>pets := newPet # pets s, loading := False,
                              lastSyncedAt := Some (iso_now e)\<rparr>,
                            [DbCreate ''pets'' petData])
                       | None \<Rightarrow>
                           (case addPet_offline e petData s of
                              (r, s') \<Rightarrow> (r, s', [DbCreate ''pets'' petData])))))
          else (case addPet_offline e petData s of (r, s') \<Rightarrow> (r, s', [])))"

text \<open>\<open>updatePet\<close>\<close>

definition updatePet ::
  "pet env \<Rightarrow> string \<Rightarrow> pet_partial \<Rightarrow> pet_state \<Rightarrow> bool \<times> pet_state \<times> pet gw_call list" where
  "updatePet e i d s0 =
     (let s = s0\<lparr>loading := True, error := None\<rparr>;
          updated = s\<lparr>pets := map (\<lambda>p. if p_id p = i then pet_merge p d (iso_now e) else p) (pets s),
                      loading := False,
                      pendingChanges := (startsWith i ''local_'' \<or> \<not> supabase_configured e)\<rparr>
      in
      case getCurrentUser e of
        Rejected m \<Rightarrow>
          (False, s\<lparr>error := Some (catch_message m ''Failed to update pet''), loading := False\<rparr>, [])
      | Resolved user \<Rightarrow>
          if user \<and> supabase_configured e \<and> \<not> startsWith i ''local_'' then
            (case db_answer e 0 of
               Rejected m \<Rightarrow>
                 (False,
                  s\<lparr>error := Some (catch_message m ''Failed to update pet''), loading := False\<rparr>,
                  [DbUpdate ''pets'' i])
             | Resolved r \<Rightarrow>
                 (case db_error r of
                    Some err \<Rightarrow>
                      (False, s\<lparr>loading := False, error := Some ''Failed to update pet''\<rparr>,
                       [DbUpdate ''pets'' i])
                  | None \<Rightarrow> (True, updated, [DbUpdate ''pets'' i])))
          else (True, updated, []))"

text \<open>\<open>deletePet\<close>\<close>

definition deletePet :: "pet env \<Rightarrow> string \<Rightarrow> pet_state \<Rightarrow> bool \<times> pet_state \<times> pet gw_call list" where
  "deletePet e i s0 =
     (let s = s0\<lparr>loading := True, error := None\<rparr>;
          removed = s\<lparr>pets := filter (\<lambda>p. p_id p \<noteq> i) (pets s), loading := False\<rparr>
      in
      case getCurrentUser e of
        Rejected m \<Rightarrow>
          (False, s\<lparr>error := Some (catch_message m ''Failed to delete pet''), loading := False\<rparr>, [])
      | Resolved user \<Rightarrow>
          if user \<and> supabase_configured e \<and> \<not> startsWith i ''local_'' then
            (case db_answer e 0 of
               Rejected m \<Rightarrow>
                 (False,
                  s\<lparr>error := Some (catch_message m ''Failed to delete pet''), loading := False\<rparr>,
                  [DbRemove ''pets'' i])
             | Resolved r \<Rightarrow>
                 (case db_error r of
                    Some err \<Rightarrow>
                      (False, s\<lparr>loading := False, error := Some ''Failed to delete pet''\<rparr>,
                       [DbRemove ''pets'' i])
                  | None \<Rightarrow> (True, removed, [DbRemove ''pets'' i])))
          else (True, removed, []))"

definition getPetById :: "pet_state \<Rightarrow> string \<Rightarrow> pet option" where
  "getPetById s i = find (\<lambda>p. p_id p = i) (pets s)"

text \<open>
  \<open>syncToServer\<close> of the pet store. \<open>getCurrentUser\<close> is awaited before the
  \<^verbatim>\<open>try\<close>: when it rejects so does the action, with the store untouched and no
  Gateway call. The loop runs over the local-only pets of the snapshot taken on entry;
  each success rewrites the current list. The first component of the loop's result is
  \<open>False\<close> when a Gateway call rejected, which leaves the loop for the \<^verbatim>\<open>catch\<close>
  block. \<open>k\<close> numbers the Gateway calls.
\<close>

fun sync_pets ::
  "pet env \<Rightarrow> nat \<Rightarrow> pet list \<Rightarrow> pet list \<Rightarrow> bool \<times> pet list \<times> pet gw_call list" where
  "sync_pets e k [] cur = (True, cur, [])"
| "sync_pets e k (pet # rest) cur =
     (case db_answer e k of
        Rejected m \<Rightarrow> (False, cur, [DbCreate ''pets'' pet])
      | Resolved r \<Rightarrow>
          (let cur' = (case (db_error r, db_data r) of
                         (None, Some serverPet) \<Rightarrow>
                           map (\<lambda>p. if p_id p = p_id pet then serverPet else p) cur
                       | _ \<Rightarrow> cur)
           in case sync_pets e (Suc k) rest cur' of
                (ok, ps, cs) \<Rightarrow> (ok, ps, DbCreate ''pets'' pet # cs)))"

definition petStore_syncToServer :: "pet env \<Rightarrow> pet_state \<Rightarrow> pet_state \<times> pet gw_call list" where
  "petStore_syncToServer e s =
     (if \<not> pendingChanges s then (s, [])
      else
        (case getCurrentUser e of
           Rejected m \<Rightarrow> (s, [])
         | Resolved user \<Rightarrow>
             if \<not> user \<or> \<not> supabase_configured e then (s, [])
             else
               (let s1 = s\<lparr>loading := True\<rparr>;
                    localPets = filter (\<lambda>p. startsWith (p_id p) ''local_'') (pets s)
                in case sync_pets e 0 localPets (pets s1) of
                     (ok, ps, cs) \<Rightarrow>
                       if ok then
                         (s1\<lparr>pets := ps, loading := False, pendingChanges := False,
                             lastSyncedAt := Some (iso_now e)\<rparr>, cs)
                       else (s1\<lparr>pets := ps, loading := False\<rparr>, cs))))"

subsection \<open>Appointments (\<^verbatim>\<open>src/stores/appointmentStore.ts\<close>)\<close>

datatype appointment_type = Checkup | AptVaccination | AptGrooming | Surgery | Emergency | Other

record appointment =
  a_id :: string
  a_petId :: string
  a_type :: appointment_type
  a_title :: string
  a_date :: string
  a_time :: "string option"
  a_veterinarian :: "string option"
  a_clinic :: "string option"
  a_location :: "string option"
  a_notes :: "string option"
  a_reminderEnabled :: "bool option"
  a_isCompleted :: "bool option"
  a_createdAt :: "string option"
  a_updatedAt :: "string option"

record appointment_partial =
  ap_petId :: "string option"
  ap_type :: "appointment_type option"
  ap_title :: "string option"
  ap_date :: "string option"
  ap_time :: "string option option"
  ap_veterinarian :: "string option option"
  ap_clinic :: "string option option"
  ap_location :: "string option option"
  ap_notes :: "string option option"
  ap_reminderEnabled :: "bool option option"
  ap_isCompleted :: "bool option option"

definition appointment_merge :: "appointment \<Rightarrow> appointment_partial \<Rightarrow> string \<Rightarrow> appointment" where
  "appointment_merge a d stamp =
     a\<lparr>a_petId := spread (a_petId a) (ap_petId d),
       a_type := spread (a_type a) (ap_type d),
       a_title := spread (a_title a) (ap_title d),
       a_date := spread (a_date a) (ap_date d),
       a_time := spread (a_time a) (ap_time d),
       a_veterinarian := spread (a_veterinarian a) (ap_veterinarian d),
       a_clinic := spread (a_clinic a) (ap_clinic d),
       a_location := spread (a_location a) (ap_location d),
       a_notes := spread (a_notes a) (ap_notes d),
       a_reminderEnabled := spread (a_reminderEnabled a) (ap_reminderEnabled d),
       a_isCompleted := spread (a_isCompleted a) (ap_isCompleted d),
       a_updatedAt := Some stamp\<rparr>"

record appointment_state =
  appointments :: "appointment list"
  apt_loading :: bool
  apt_error :: "string option"
  apt_lastSyncedAt :: "string option"
  apt_pendingChanges :: bool

definition updateAppointment ::
  "appointment env \<Rightarrow> string \<Rightarrow> appointment_partial \<Rightarrow> appointment_state
     \<Rightarrow> bool \<times> appointment_state \<times> appointment gw_call list" where
  "updateAppointment e i d s0 =
     (let s = s0\<lparr>apt_loading := True, apt_error := None\<rparr>;
          updated = s\<lparr>appointments :=
                        map (\<lambda>apt. if a_id apt = i then appointment_merge apt d (iso_now e) else apt)
                          (appointments s),
                      apt_loading := False,
                      apt_pendingChanges := (startsWith i ''local_'' \<or> \<not> supabase_configured e)\<rparr>
      in
      case getCurrentUser e of
        Rejected m \<Rightarrow>
          (False,
           s\<lparr>apt_error := Some (catch_message m ''Failed to update appointment''),
             apt_loading := False\<rparr>,
           [])
      | Resolved user \<Rightarrow>
          if user \<and> supabase_configured e \<and> \<not> startsWith i ''local_'' then
            (case db_answer e 0 of
               Rejected m \<Rightarrow>
                 (False,
                  s\<lparr>apt_error := Some (catch_message m ''Failed to update appointment''),
                    apt_loading := False\<rparr>,
                  [DbUpdate ''appointments'' i])
             | Resolved r \<Rightarrow>
                 (case db_error r of
                    Some err \<Rightarrow>
                      (False,
                       s\<lparr>apt_loading := False, apt_error := Some ''Failed to update appointment''\<rparr>,
                       [DbUpdate ''appointments'' i])
                  | None \<Rightarrow> (True, updated, [DbUpdate ''appointments'' i])))
          else (True, updated, []))"

definition deleteAppointment ::
  "appointment env \<Rightarrow> string \<Rightarrow> appointment_state
     \<Rightarrow> bool \<times> appointment_state \<times> appointment gw_call list" where
  "deleteAppointment e i s0 =
     (let s = s0\<lparr>apt_loading := True, apt_error := None\<rparr>;
          removed = s\<lparr>appointments := filter (\<lambda>apt. a_id apt \<noteq> i) (appointments s),
                      apt_loading := False\<rparr>
      in
      case getCurrentUser e of
        Rejected m \<Rightarrow>
          (False,
           s\<lparr>apt_error := Some (catch_message m ''Failed to delete appointment''),
             apt_loading := False\<rparr>,
           [])
      | Resolved user \<Rightarrow>
          if user \<and> supabase_configured e \<and> \<not> startsWith i ''local_'' then
            (case db_answer e 0 of
               Rejected m \<Rightarrow>
                 (False,
                  s\<lparr>apt_error := Some (catch_message m ''Failed to delete appointment''),
                    apt_loading := False\<rparr>,
                  [DbRemove ''appointments'' i])
             | Resolved r \<Rightarrow>
                 (case db_error r of
                    Some err \<Rightarrow>
                      (False,
                       s\<lparr>apt_loading := False, apt_error := Some ''Failed to delete appointment''\<rparr>,
                       [DbRemove ''appointments'' i])
                  | None \<Rightarrow> (True, removed, [DbRemove ''appointments'' i])))
          else (True, removed, []))"

subsection \<open>The notification service (\<^verbatim>\<open>src/services/notification.service.ts\<close>)\<close>

datatype reminder_type = Feeding | Walk | Medication | Grooming | Vet | Vaccination | Custom

record time_of_day =
  hour :: int
  minute :: int

record pet_reminder =
  r_id :: string
  r_petId :: string
  r_petName :: string
  r_type :: reminder_type
  r_title :: string
  r_body :: string
  r_time :: time_of_day
  r_daysOfWeek :: "int list"
  r_enabled :: bool

text \<open>
  The platform scheduler (\<^verbatim>\<open>expo-notifications\<close>): the requests it holds and the
  next identifier it hands out. A request carries its content and the \<^verbatim>\<open>data\<close>
  payload the service writes; only weekly triggers are built by the code modelled
  here, \<open>OTHER\<close> stands for the triggers of the remaining notification kinds
  (appointments, achievements).
\<close>

datatype trigger = WEEKLY (weekday: int) (trigger_hour: int) (trigger_minute: int) | OTHER

record notification_request =
  req_identifier :: nat
  content_title :: string
  content_body :: string
  data_type :: string
  data_reminderId :: "string option"
  data_petId :: "string option"
  data_reminderType :: "reminder_type option"
  request_trigger :: trigger

record scheduler =
  scheduled :: "notification_request list"
  next_identifier :: nat

text \<open>
  The library validates a weekly trigger before it registers anything: the weekday
  must lie in 1..7 (1 is Sunday), the hour in 0..23 and the minute in 0..59;
  otherwise the call throws a \<^verbatim>\<open>RangeError\<close> (the text of its message is not
  modelled) and the schedule is as before.
\<close>

definition trigger_accepted :: "trigger \<Rightarrow> bool" where
  "trigger_accepted t =
     (case t of
        WEEKLY w h m \<Rightarrow> 1 \<le> w \<and> w \<le> 7 \<and> 0 \<le> h \<and> h \<le> 23 \<and> 0 \<le> m \<and> m \<le> 59
      | OTHER \<Rightarrow> True)"

definition scheduleNotificationAsync ::
  "notification_request \<Rightarrow> scheduler \<Rightarrow> nat outcome \<times> scheduler" where
  "scheduleNotificationAsync req sch =
     (if trigger_accepted (request_trigger req) then
        (Resolved (next_identifier sch),
         sch\<lparr>scheduled := scheduled sch @ [req\<lparr>req_identifier := next_identifier sch\<rparr>],
             next_identifier := Suc (next_identifier sch)\<rparr>)
      else (Rejected (Some ''RangeError''), sch))"

definition cancelScheduledNotificationAsync :: "nat \<Rightarrow> scheduler \<Rightarrow> scheduler" where
  "cancelScheduledNotificationAsync i sch =
     sch\<lparr>scheduled := filter (\<lambda>n. req_identifier n \<noteq> i) (scheduled sch)\<rparr>"

definition cancelAllNotifications :: "scheduler \<Rightarrow> scheduler" where
  "cancelAllNotifications sch = sch\<lparr>scheduled := []\<rparr>"

text \<open>
  \<open>cancelPetReminder\<close>: a loop over the list read by
  \<^verbatim>\<open>getAllScheduledNotificationsAsync\<close>, cancelling by identifier every request whose
  \<^verbatim>\<open>data.reminderId\<close> is the given id.
\<close>

fun cancel_matching :: "string \<Rightarrow> notification_request list \<Rightarrow> scheduler \<Rightarrow> scheduler" where
  "cancel_matching rid [] sch = sch"
| "cancel_matching rid (n # ns) sch =
     cancel_matching rid ns
       (if data_reminderId n = Some rid then cancelScheduledNotificationAsync (req_identifier n) sch
        else sch)"

definition cancelPetReminder :: "string \<Rightarrow> scheduler \<Rightarrow> scheduler" where
  "cancelPetReminder reminderId sch = cancel_matching reminderId (scheduled sch) sch"

text \<open>The title is the paw emoji (four bytes of UTF-8), a space and the reminder's title.\<close>

definition paw_title :: "string \<Rightarrow> string" where
  "paw_title t = [CHR 0xF0, CHR 0x9F, CHR 0x90, CHR 0xBE, CHR '' ''] @ t"

definition reminder_request :: "pet_reminder \<Rightarrow> int \<Rightarrow> notification_request" where
  "reminder_request reminder dayOfWeek =
     \<lparr>req_identifier = 0,
      content_title = paw_title (r_title reminder),
      content_body = r_body reminder,
      data_type = ''pet-reminder'',
      data_reminderId = Some (r_id reminder),
      data_petId = Some (r_petId reminder),
      data_reminderType = Some (r_type reminder),
      request_trigger = WEEKLY dayOfWeek (hour (r_time reminder)) (minute (r_time reminder))\<rparr>"

text \<open>
  \<open>schedulePetReminder\<close>: cancel, then one request per selected day. A request the
  scheduler refuses ends the loop with the rejection; the requests registered before
  it stay.
\<close>

fun schedule_days :: "pet_reminder \<Rightarrow> int list \<Rightarrow> scheduler \<Rightarrow> nat list outcome \<times> scheduler" where
  "schedule_days reminder [] sch = (Resolved [], sch)"
| "schedule_days reminder (dayOfWeek # ds) sch =
     (case scheduleNotificationAsync (reminder_request reminder dayOfWeek) sch of
        (Rejected m, sch') \<Rightarrow> (Rejected m, sch')
      | (Resolved notificationId, sch') \<Rightarrow>
          (case schedule_days reminder ds sch' of
             (Rejected m, sch'') \<Rightarrow> (Rejected m, sch'')
           | (Resolved ids, sch'') \<Rightarrow> (Resolved (notificationId # ids), sch'')))"

definition schedulePetReminder :: "pet_reminder \<Rightarrow> scheduler \<Rightarrow> nat list outcome \<times> scheduler" where
  "schedulePetReminder reminder sch =
     (let sch1 = cancelPetReminder (r_id reminder) sch in
      if \<not> r_enabled reminder \<or> length (r_daysOfWeek reminder) = 0 then (Resolved [], sch1)
      else schedule_days reminder (r_daysOfWeek reminder) sch1)"

subsection \<open>Reminders and settings (\<^verbatim>\<open>src/stores/notificationStore.ts\<close>)\<close>

record notification_settings =
  pushEnabled :: bool
  reminders :: bool
  achievements :: bool
  weeklyReport :: bool
  marketing :: bool
  appointmentReminders :: bool
  appointmentReminderMinutes :: int

record settings_partial =
  sp_pushEnabled :: "bool option"
  sp_reminders :: "bool option"
  sp_achievements :: "bool option"
  sp_weeklyReport :: "bool option"
  sp_marketing :: "bool option"
  sp_appointmentReminders :: "bool option"
  sp_appointmentReminderMinutes :: "int option"

definition settings_merge :: "notification_settings \<Rightarrow> settings_partial \<Rightarrow> notification_settings" where
  "settings_merge c n =
     \<lparr>pushEnabled = spread (pushEnabled c) (sp_pushEnabled n),
      reminders = spread (reminders c) (sp_reminders n),
      achievements = spread (achievements c) (sp_achievements n),
      weeklyReport = spread (weeklyReport c) (sp_weeklyReport n),
      marketing = spread (marketing c) (sp_marketing n),
      appointmentReminders = spread (appointmentReminders c) (sp_appointmentReminders n),
      appointmentReminderMinutes =
        spread (appointmentReminderMinutes c) (sp_appointmentReminderMinutes n)\<rparr>"

definition DEFAULT_SETTINGS :: notification_settings where
  "DEFAULT_SETTINGS =
     \<lparr>pushEnabled = True, reminders = True, achievements = True, weeklyReport = False,
      marketing = False, appointmentReminders = True, appointmentReminderMinutes = 60\<rparr>"

text \<open>\<^verbatim>\<open>Partial<PetReminder>\<close>; no caller passes \<^verbatim>\<open>id\<close>.\<close>

record reminder_partial =
  rp_petId :: "string option"
  rp_petName :: "string option"
  rp_type :: "reminder_type option"
  rp_title :: "string option"
  rp_body :: "string option"
  rp_time :: "time_of_day option"
  rp_daysOfWeek :: "int list option"
  rp_enabled :: "bool option"

definition reminder_merge :: "pet_reminder \<Rightarrow> reminder_partial \<Rightarrow> pet_reminder" where
  "reminder_merge r u =
     r\<lparr>r_petId := spread (r_petId r) (rp_petId u),
       r_petName := spread (r_petName r) (rp_petName u),
       r_type := spread (r_type r) (rp_type u),
       r_title := spread (r_title r) (rp_title u),
       r_body := spread (r_body r) (rp_body u),
       r_time := spread (r_time r) (rp_time u),
       r_daysOfWeek := spread (r_daysOfWeek r) (rp_daysOfWeek u),
       r_enabled := spread (r_enabled r) (rp_enabled u)\<rparr>"

record notification_state =
  settings :: notification_settings
  petReminders :: "pet_reminder list"
  isInitialized :: bool
  permissionGranted :: bool
  n_lastSyncedAt :: "string option"
  n_pendingChanges :: bool

text \<open>
  The actions of this store also drive the scheduler, whose state they take and return.

  \<open>addPetReminder\<close>. Once the new reminder is in the store it is scheduled if the
  gate is on and it is enabled; a rejection there (as any other in the action) ends in
  the \<^verbatim>\<open>catch\<close> block, which returns \<^verbatim>\<open>null\<close> with the reminder already stored.
\<close>

definition addPetReminder_stored ::
  "pet_reminder \<Rightarrow> notification_state \<Rightarrow> scheduler \<Rightarrow> pet_reminder gw_call list
     \<Rightarrow> string option \<times> notification_state \<times> scheduler \<times> pet_reminder gw_call list" where
  "addPetReminder_stored newReminder s' sch calls =
     (if pushEnabled (settings s') \<and> reminders (settings s') \<and> r_enabled newReminder then
        (case schedulePetReminder newReminder sch of
           (Rejected m, sch') \<Rightarrow> (None, s', sch', calls)
         | (Resolved ids, sch') \<Rightarrow> (Some (r_id newReminder), s', sch', calls))
      else (Some (r_id newReminder), s', sch, calls))"

definition addPetReminder_offline ::
  "pet_reminder env \<Rightarrow> pet_reminder \<Rightarrow> notification_state \<Rightarrow> scheduler
     \<Rightarrow> pet_reminder gw_call list
     \<Rightarrow> string option \<times> notification_state \<times> scheduler \<times> pet_reminder gw_call list" where
  "addPetReminder_offline e reminderData s sch calls =
     (let newReminder = reminderData\<lparr>r_id := ''local_'' @ string_of_nat (date_now e)\<rparr>;
          s' = s\<lparr>petReminders := petReminders s @ [newReminder], n_pendingChanges := True\<rparr>
      in addPetReminder_stored newReminder s' sch calls)"

definition addPetReminder ::
  "pet_reminder env \<Rightarrow> pet_reminder \<Rightarrow> notification_state \<Rightarrow> scheduler
     \<Rightarrow> string option \<times> notification_state \<times> scheduler \<times> pet_reminder gw_call list" where
  "addPetReminder e reminderData s sch =
     (case getCurrentUser e of
        Rejected m \<Rightarrow> (None, s, sch, [])
      | Resolved user \<Rightarrow>
          if user \<and> supabase_configured e then
            (case db_answer e 0 of
               Rejected m \<Rightarrow> (None, s, sch, [DbCreate ''pet_reminders'' reminderData])
             | Resolved r \<Rightarrow>
                 (case db_error r of
                    Some err \<Rightarrow> (None, s, sch, [DbCreate ''pet_reminders'' reminderData])
                  | None \<Rightarrow>
                      (case db_data r of
                         Some newReminder \<Rightarrow>
                           addPetReminder_stored newReminder
                             (s\<lparr>petReminders := petReminders s @ [newReminder]\<rparr>) sch
                             [DbCreate ''pet_reminders'' reminderData]
                       | None \<Rightarrow>
                           addPetReminder_offline e reminderData s sch
                             [DbCreate ''pet_reminders'' reminderData])))
          else addPetReminder_offline e reminderData s sch [])"

text \<open>
  \<open>updatePetReminder\<close>. The lookup comes first, then \<open>getCurrentUser\<close> and the Gateway
  update; once those passed, the store is written and, with the gate on, the
  scheduler is driven. A rejection of the scheduler then returns \<^verbatim>\<open>false\<close> with the
  store already written.
\<close>

definition updatePetReminder_commit ::
  "pet_reminder env \<Rightarrow> string \<Rightarrow> pet_reminder \<Rightarrow> notification_state \<Rightarrow> scheduler
     \<Rightarrow> pet_reminder gw_call list
     \<Rightarrow> bool \<times> notification_state \<times> scheduler \<times> pet_reminder gw_call list" where
  "updatePetReminder_commit e i updatedReminder s sch calls =
     (let s' = s\<lparr>petReminders := map (\<lambda>r. if r_id r = i then updatedReminder else r) (petReminders s),
                 n_pendingChanges := (startsWith i ''local_'' \<or> \<not> supabase_configured e)\<rparr>
      in
      if pushEnabled (settings s) \<and> reminders (settings s) then
        (if r_enabled updatedReminder then
           (case schedulePetReminder updatedReminder sch of
              (Rejected m, sch') \<Rightarrow> (False, s', sch', calls)
            | (Resolved ids, sch') \<Rightarrow> (True, s', sch', calls))
         else (True, s', cancelPetReminder i sch, calls))
      else (True, s', sch, calls))"

definition updatePetReminder ::
  "pet_reminder env \<Rightarrow> string \<Rightarrow> reminder_partial \<Rightarrow> notification_state \<Rightarrow> scheduler
     \<Rightarrow> bool \<times> notification_state \<times> scheduler \<times> pet_reminder gw_call list" where
  "updatePetReminder e i updates s sch =
     (case find (\<lambda>r. r_id r = i) (petReminders s) of
        None \<Rightarrow> (False, s, sch, [])
      | Some existingReminder \<Rightarrow>
          (let updatedReminder = reminder_merge existingReminder updates in
           case getCurrentUser e of
             Rejected m \<Rightarrow> (False, s, sch, [])
           | Resolved user \<Rightarrow>
               if user \<and> supabase_configured e \<and> \<not> startsWith i ''local_'' then
                 (case db_answer e 0 of
                    Rejected m \<Rightarrow> (False, s, sch, [DbUpdate ''pet_reminders'' i])
                  | Resolved r \<Rightarrow>
                      (case db_error r of
                         Some err \<Rightarrow> (False, s, sch, [DbUpdate ''pet_reminders'' i])
                       | None \<Rightarrow>
                           updatePetReminder_commit e i updatedReminder s sch
                             [DbUpdate ''pet_reminders'' i]))
               else updatePetReminder_commit e i updatedReminder s sch []))"

text \<open>
  \<open>deletePetReminder\<close> cancels the reminder's triggers first, inside the \<^verbatim>\<open>try\<close>,
  and only then asks for the user and the Gateway.
\<close>

definition deletePetReminder ::
  "pet_reminder env \<Rightarrow> string \<Rightarrow> notification_state \<Rightarrow> scheduler
     \<Rightarrow> bool \<times> notification_state \<times> scheduler \<times> pet_reminder gw_call list" where
  "deletePetReminder e i s sch =
     (let sch' = cancelPetReminder i sch;
          s' = s\<lparr>petReminders := filter (\<lambda>r. r_id r \<noteq> i) (petReminders s)\<rparr>
      in
      case getCurrentUser e of
        Rejected m \<Rightarrow> (False, s, sch', [])
      | Resolved user \<Rightarrow>
          if user \<and> supabase_configured e \<and> \<not> startsWith i ''local_'' then
            (case db_answer e 0 of
               Rejected m \<Rightarrow> (False, s, sch', [DbRemove ''pet_reminders'' i])
             | Resolved r \<Rightarrow>
                 (case db_error r of
                    Some err \<Rightarrow> (False, s, sch', [DbRemove ''pet_reminders'' i])
                  | None \<Rightarrow> (True, s', sch', [DbRemove ''pet_reminders'' i])))
          else (True, s', sch', []))"

definition enabled_only :: "bool \<Rightarrow> reminder_partial" where
  "enabled_only b =
     \<lparr>rp_petId = None, rp_petName = None, rp_type = None, rp_title = None, rp_body = None,
      rp_time = None, rp_daysOfWeek = None, rp_enabled = Some b\<rparr>"

definition togglePetReminder ::
  "pet_reminder env \<Rightarrow> string \<Rightarrow> notification_state \<Rightarrow> scheduler
     \<Rightarrow> notification_state \<times> scheduler \<times> pet_reminder gw_call list" where
  "togglePetReminder e i s sch =
     (case find (\<lambda>r. r_id r = i) (petReminders s) of
        Some reminder \<Rightarrow> snd (updatePetReminder e i (enabled_only (\<not> r_enabled reminder)) s sch)
      | None \<Rightarrow> (s, sch, []))"

definition getPetReminders :: "notification_state \<Rightarrow> string \<Rightarrow> pet_reminder list" where
  "getPetReminders s petId = filter (\<lambda>r. r_petId r = petId) (petReminders s)"

text \<open>
  \<open>scheduleAllReminders\<close> has no \<^verbatim>\<open>try\<close>: the first reminder the scheduler refuses
  ends the loop and rejects the action.
\<close>

fun schedule_each :: "pet_reminder list \<Rightarrow> scheduler \<Rightarrow> unit outcome \<times> scheduler" where
  "schedule_each [] sch = (Resolved (), sch)"
| "schedule_each (reminder # rs) sch =
     (if r_enabled reminder then
        (case schedulePetReminder reminder sch of
           (Rejected m, sch') \<Rightarrow> (Rejected m, sch')
         | (Resolved ids, sch') \<Rightarrow> schedule_each rs sch')
      else schedule_each rs sch)"

definition scheduleAllReminders :: "notification_state \<Rightarrow> scheduler \<Rightarrow> unit outcome \<times> scheduler" where
  "scheduleAllReminders s sch =
     (if \<not> pushEnabled (settings s) \<or> \<not> reminders (settings s) then (Resolved (), sch)
      else schedule_each (petReminders s) sch)"

definition cancelAllReminders :: "scheduler \<Rightarrow> scheduler" where
  "cancelAllReminders sch = cancelAllNotifications sch"

text \<open>
  \<open>updateSettings\<close> has no \<^verbatim>\<open>try\<close> either. The new settings are stored first; a
  rejection of \<open>getCurrentUser\<close> or of the \<^verbatim>\<open>upsert\<close> then rejects the action before
  the scheduler is touched. After that only a change of \<open>pushEnabled\<close> is acted on.
\<close>

definition updateSettings_push ::
  "notification_settings \<Rightarrow> notification_state \<Rightarrow> scheduler \<Rightarrow> pet_reminder gw_call list
     \<Rightarrow> unit outcome \<times> notification_state \<times> scheduler \<times> pet_reminder gw_call list" where
  "updateSettings_push currentSettings s' sch calls =
     (let updatedSettings = settings s';
          sch1 = (if pushEnabled currentSettings \<and> \<not> pushEnabled updatedSettings
                  then cancelAllReminders sch else sch)
      in
      if \<not> pushEnabled currentSettings \<and> pushEnabled updatedSettings then
        (case scheduleAllReminders s' sch1 of
           (Rejected m, sch2) \<Rightarrow> (Rejected m, s', sch2, calls)
         | (Resolved u, sch2) \<Rightarrow> (Resolved (), s', sch2, calls))
      else (Resolved (), s', sch1, calls))"

definition updateSettings ::
  "pet_reminder env \<Rightarrow> settings_partial \<Rightarrow> notification_state \<Rightarrow> scheduler
     \<Rightarrow> unit outcome \<times> notification_state \<times> scheduler \<times> pet_reminder gw_call list" where
  "updateSettings e newSettings s sch =
     (let currentSettings = settings s;
          updatedSettings = settings_merge currentSettings newSettings;
          s' = s\<lparr>settings := updatedSettings\<rparr>
      in
      case getCurrentUser e of
        Rejected m \<Rightarrow> (Rejected m, s', sch, [])
      | Resolved user \<Rightarrow>
          if user \<and> supabase_configured e then
            (case db_answer e 0 of
               Rejected m \<Rightarrow> (Rejected m, s', sch, [DbUpsert ''user_settings''])
             | Resolved r \<Rightarrow> updateSettings_push currentSettings s' sch [DbUpsert ''user_settings''])
          else updateSettings_push currentSettings s' sch [])"

text \<open>
  \<open>syncToServer\<close> of the notification store: \<open>getCurrentUser\<close> is awaited before the
  \<^verbatim>\<open>try\<close>, as in the pet store; the settings \<^verbatim>\<open>upsert\<close> is Gateway call 0, the
  creates of the local-only reminders follow.
\<close>

fun sync_reminders ::
  "pet_reminder env \<Rightarrow> nat \<Rightarrow> pet_reminder list \<Rightarrow> pet_reminder list
     \<Rightarrow> bool \<times> pet_reminder list \<times> pet_reminder gw_call list" where
  "sync_reminders e k [] cur = (True, cur, [])"
| "sync_reminders e k (reminder # rest) cur =
     (case db_answer e k of
        Rejected m \<Rightarrow> (False, cur, [DbCreate ''pet_reminders'' reminder])
      | Resolved r \<Rightarrow>
          (let cur' = (case (db_error r, db_data r) of
                         (None, Some serverReminder) \<Rightarrow>
                           map (\<lambda>x. if r_id x = r_id reminder then serverReminder else x) cur
                       | _ \<Rightarrow> cur)
           in case sync_reminders e (Suc k) rest cur' of
                (ok, rs, cs) \<Rightarrow> (ok, rs, DbCreate ''pet_reminders'' reminder # cs)))"

definition notificationStore_syncToServer ::
  "pet_reminder env \<Rightarrow> notification_state \<Rightarrow> notification_state \<times> pet_reminder gw_call list" where
  "notificationStore_syncToServer e s =
     (if \<not> n_pendingChanges s then (s, [])
      else
        (case getCurrentUser e of
           Rejected m \<Rightarrow> (s, [])
         | Resolved user \<Rightarrow>
             if \<not> user \<or> \<not> supabase_configured e then (s, [])
             else
               (case db_answer e 0 of
                  Rejected m \<Rightarrow> (s, [DbUpsert ''user_settings''])
                | Resolved u \<Rightarrow>
                    (let localReminders =
                           filter (\<lambda>r. startsWith (r_id r) ''local_'') (petReminders s)
                     in case sync_reminders e 1 localReminders (petReminders s) of
                          (ok, rs, cs) \<Rightarrow>
                            if ok then
                              (s\<lparr>petReminders := rs, n_pendingChanges := False,
                                 n_lastSyncedAt := Some (iso_now e)\<rparr>,
                               DbUpsert ''user_settings'' # cs)
                            else (s\<lparr>petReminders := rs\<rparr>, DbUpsert ''user_settings'' # cs)))))"

subsection \<open>The application: the three stores and the scheduler\<close>

text \<open>
  The stores are module-level singletons. \<open>deletePet\<close> is an action of the pet store:
  run against the whole application it writes that store only.
\<close>

record app =
  petStore :: pet_state
  appointmentStore :: appointment_state
  notificationStore :: notification_state
  notifications :: scheduler

definition app_deletePet :: "pet env \<Rightarrow> string \<Rightarrow> app \<Rightarrow> bool \<times> app \<times> pet gw_call list" where
  "app_deletePet e i a =
     (case deletePet e i (petStore a) of (ok, ps, cs) \<Rightarrow> (ok, a\<lparr>petStore := ps\<rparr>, cs))"

text \<open>
  The requests of a reminder are all ones the scheduler accepts.
\<close>

definition all_accepted :: "pet_reminder \<Rightarrow> bool" where
  "all_accepted r =
     list_all (\<lambda>d. trigger_accepted (WEEKLY d (hour (r_time r)) (minute (r_time r))))
       (r_daysOfWeek r)"

text \<open>
  A Gateway write failed: the call rejected, or resolved with an \<^verbatim>\<open>error\<close>.
\<close>

definition gateway_failed :: "'a db_result outcome \<Rightarrow> bool" where
  "gateway_failed a = (case a of Rejected m \<Rightarrow> True | Resolved r \<Rightarrow> db_error r \<noteq> None)"

subsection \<open>Sample data\<close>

text \<open>
  Three devices: one that is configured with nobody signed in, one that is configured
  and signed in, whose Gateway answers are given call by call, and one that is not
  configured at all. Then the empty stores and a few records.
\<close>

definition signed_out_env :: "'a env" where
  "signed_out_env =
     \<lparr>supabase_configured = True, client_error = [], current_user = False,
      date_now = 1700000000000, iso_now = ''2023-11-14T22:13:20.000Z'',
      db_answer = (\<lambda>k. Rejected None)\<rparr>"

definition online_env :: "(nat \<Rightarrow> 'a db_result outcome) \<Rightarrow> 'a env" where
  "online_env answers =
     \<lparr>supabase_configured = True, client_error = [], current_user = True,
      date_now = 1700000000000, iso_now = ''2023-11-14T22:13:20.000Z'',
      db_answer = answers\<rparr>"

definition unconfigured_env :: "'a env" where
  "unconfigured_env =
     \<lparr>supabase_configured = False, client_error = ''supabaseUrl is required.'',
      current_user = False, date_now = 1700000000000,
      iso_now = ''2023-11-14T22:13:20.000Z'', db_answer = (\<lambda>k. Rejected None)\<rparr>"

definition gateway_error :: "'a db_result outcome" where
  "gateway_error = Resolved \<lparr>db_data = None, db_error = Some ''TypeError: Network request failed''\<rparr>"

definition gateway_ok :: "'a \<Rightarrow> 'a db_result outcome" where
  "gateway_ok x = Resolved \<lparr>db_data = Some x, db_error = None\<rparr>"

definition gateway_done :: "'a db_result outcome" where
  "gateway_done = Resolved \<lparr>db_data = None, db_error = None\<rparr>"

text \<open>A Gateway whose every call fails, and one whose every call succeeds without data.\<close>

definition failing_gateway :: "nat \<Rightarrow> 'a db_result outcome" where
  "failing_gateway k = gateway_error"

definition accepting_gateway :: "nat \<Rightarrow> 'a db_result outcome" where
  "accepting_gateway k = gateway_done"

definition no_pets :: pet_state where
  "no_pets = \<lparr>pets = [], loading = False, error = None, lastSyncedAt = None, pendingChanges = False\<rparr>"

definition rex :: pet where
  "rex =
     \<lparr>p_id = ''7f3c'', p_name = ''Rex'', p_species = ''dog'', p_breed = ''Beagle'', p_age = 3,
      p_weight = 11, p_imageUrl = None, p_gender = Some Male, p_color = None,
      p_microchipId = None, p_notes = None, p_createdAt = Some ''2023-01-01T00:00:00.000Z'',
      p_updatedAt = Some ''2023-01-01T00:00:00.000Z''\<rparr>"

definition tom :: pet where
  "tom =
     \<lparr>p_id = ''91ab'', p_name = ''Tom'', p_species = ''cat'', p_breed = ''Maine Coon'', p_age = 5,
      p_weight = 4, p_imageUrl = None, p_gender = None, p_color = Some ''grey'',
      p_microchipId = None, p_notes = None, p_createdAt = Some ''2023-02-01T00:00:00.000Z'',
      p_updatedAt = Some ''2023-02-01T00:00:00.000Z''\<rparr>"

definition rename_to :: "string \<Rightarrow> pet_partial" where
  "rename_to n =
     \<lparr>pp_name = Some n, pp_species = None, pp_breed = None, pp_age = None, pp_weight = None,
      pp_imageUrl = None, pp_gender = None, pp_color = None, pp_microchipId = None,
      pp_notes = None\<rparr>"

definition synced_pets :: pet_state where
  "synced_pets =
     \<lparr>pets = [rex, tom], loading = False, error = None,
      lastSyncedAt = Some ''2023-03-01T00:00:00.000Z'', pendingChanges = False\<rparr>"

definition checkup :: appointment where
  "checkup =
     \<lparr>a_id = ''a1'', a_petId = ''7f3c'', a_type = Checkup, a_title = ''Annual checkup'',
      a_date = ''2024-01-15'', a_time = Some ''10:00'', a_veterinarian = None, a_clinic = None,
      a_location = None, a_notes = None, a_reminderEnabled = Some True,
      a_isCompleted = Some False, a_createdAt = Some ''2023-03-01T00:00:00.000Z'',
      a_updatedAt = Some ''2023-03-01T00:00:00.000Z''\<rparr>"

definition synced_appointments :: appointment_state where
  "synced_appointments =
     \<lparr>appointments = [checkup], apt_loading = False, apt_error = None,
      apt_lastSyncedAt = Some ''2023-03-01T00:00:00.000Z'', apt_pendingChanges = False\<rparr>"

definition complete :: appointment_partial where
  "complete =
     \<lparr>ap_petId = None, ap_type = None, ap_title = None, ap_date = None, ap_time = None,
      ap_veterinarian = None, ap_clinic = None, ap_location = None, ap_notes = None,
      ap_reminderEnabled = None, ap_isCompleted = Some (Some True)\<rparr>"

definition no_reminders :: notification_state where
  "no_reminders =
     \<lparr>settings = DEFAULT_SETTINGS, petReminders = [], isInitialized = True,
      permissionGranted = True, n_lastSyncedAt = None, n_pendingChanges = False\<rparr>"

definition no_notifications :: scheduler where
  "no_notifications = \<lparr>scheduled = [], next_identifier = 0\<rparr>"

text \<open>
  Rex's breakfast on the five days numbered 1 to 5 at 8:00, and Tom's walk on the days
  numbered 3 and 6 at 18:30: weekdays the reminder form produces and the scheduler
  accepts. A third reminder on day 0 (the form's Sunday), which the scheduler refuses.
\<close>

definition breakfast :: pet_reminder where
  "breakfast =
     \<lparr>r_id = ''r1'', r_petId = ''7f3c'', r_petName = ''Rex'', r_type = Feeding,
      r_title = ''Breakfast'', r_body = ''Time to feed Rex!'',
      r_time = \<lparr>hour = 8, minute = 0\<rparr>, r_daysOfWeek = [1, 2, 3, 4, 5], r_enabled = True\<rparr>"

definition walk_time :: pet_reminder where
  "walk_time =
     \<lparr>r_id = ''r2'', r_petId = ''91ab'', r_petName = ''Tom'', r_type = Walk,
      r_title = ''Walk'', r_body = ''Time to walk Tom!'',
      r_time = \<lparr>hour = 18, minute = 30\<rparr>, r_daysOfWeek = [3, 6], r_enabled = True\<rparr>"

definition sunday_brush :: pet_reminder where
  "sunday_brush =
     \<lparr>r_id = ''r3'', r_petId = ''91ab'', r_petName = ''Tom'', r_type = Grooming,
      r_title = ''Brush'', r_body = ''Time to groom Tom!'',
      r_time = \<lparr>hour = 10, minute = 0\<rparr>, r_daysOfWeek = [0], r_enabled = True\<rparr>"

definition synced_reminders :: notification_state where
  "synced_reminders = no_reminders\<lparr>petReminders := [breakfast, walk_time]\<rparr>"

text \<open>The application with Rex and Tom, Rex's checkup and both reminders scheduled.\<close>

definition home :: app where
  "home =
     \<lparr>petStore = synced_pets, appointmentStore = synced_appointments,
      notificationStore = synced_reminders,
      notifications = snd (scheduleAllReminders synced_reminders no_notifications)\<rparr>"

text \<open>Moving a reminder to 9:00, and the settings switch for pet-care reminders.\<close>

definition at_nine :: reminder_partial where
  "at_nine =
     \<lparr>rp_petId = None, rp_petName = None, rp_type = None, rp_title = None, rp_body = None,
      rp_time = Some \<lparr>hour = 9, minute = 0\<rparr>, rp_daysOfWeek = None, rp_enabled = None\<rparr>"

definition set_reminders :: "bool \<Rightarrow> settings_partial" where
  "set_reminders b =
     \<lparr>sp_pushEnabled = None, sp_reminders = Some b, sp_achievements = None,
      sp_weeklyReport = None, sp_marketing = None, sp_appointmentReminders = None,
      sp_appointmentReminderMinutes = None\<rparr>"

text \<open>Both reminders stored, push notifications on, pet-care reminders switched off.\<close>

definition quiet_reminders :: notification_state where
  "quiet_reminders = synced_reminders\<lparr>settings := DEFAULT_SETTINGS\<lparr>reminders := False\<rparr>\<rparr>"

text \<open>
  Two pets created offline and still waiting for the backend, the rows the backend
  would answer with, and Gateways for a pass over them: one that accepts both, one
  that fails the first create and accepts the second.
\<close>

definition milo_local :: pet where
  "milo_local = rex\<lparr>p_id := ''local_1700000000000'', p_name := ''Milo''\<rparr>"

definition luna_local :: pet where
  "luna_local = tom\<lparr>p_id := ''local_1700000000500'', p_name := ''Luna''\<rparr>"

definition milo_server :: pet where
  "milo_server = milo_local\<lparr>p_id := ''c4d2''\<rparr>"

definition luna_server :: pet where
  "luna_server = luna_local\<lparr>p_id := ''e815''\<rparr>"

definition pending_pets :: pet_state where
  "pending_pets =
     \<lparr>pets = [milo_local, luna_local, rex], loading = False, error = None,
      lastSyncedAt = Some ''2023-03-01T00:00:00.000Z'', pendingChanges = True\<rparr>"

definition assigning_gateway :: "nat \<Rightarrow> pet db_result outcome" where
  "assigning_gateway k = gateway_ok (if k = 0 then milo_server else luna_server)"

definition flaky_gateway :: "nat \<Rightarrow> pet db_result outcome" where
  "flaky_gateway k = (if k = 0 then gateway_error else gateway_ok luna_server)"

text \<open>The breakfast reminder created offline, and the Gateway answering its pass.\<close>

definition breakfast_local :: pet_reminder where
  "breakfast_local = breakfast\<lparr>r_id := ''local_1700000000000''\<rparr>"

definition pending_reminders :: notification_state where
  "pending_reminders = no_reminders\<lparr>petReminders := [breakfast_local], n_pendingChanges := True\<rparr>"

definition reminder_gateway :: "nat \<Rightarrow> pet_reminder db_result outcome" where
  "reminder_gateway k = (if k = 0 then gateway_done else gateway_ok breakfast)"

section \<open>Properties\<close>

subsection \<open>Weekday summaries\<close>

lemma length7_iff:
  assumes "distinct (days::int list)" "set days \<subseteq> {0..6}"
  shows "length days = 7 \<longleftrightarrow> set days = {0..6}"
proof -
  have c: "card (set days) = length days" using assms(1) by (rule distinct_card)
  show ?thesis
  proof
    assume "length days = 7"
    then have "card (set days) = card {0..6::int}" using c by simp
    with assms(2) show "set days = {0..6}" by (intro card_subset_eq) auto
  next
    assume "set days = {0..6}"
    then show "length days = 7" using c by simp
  qed
qed

lemma weekdays_iff:
  assumes "distinct (days::int list)" "set days \<subseteq> {0..6}"
  shows "length days = 5 \<and> 0 \<notin> set days \<and> 6 \<notin> set days \<longleftrightarrow> set days = {1..5}"
proof -
  have c: "card (set days) = length days" using assms(1) by (rule distinct_card)
  show ?thesis
  proof
    assume a: "length days = 5 \<and> 0 \<notin> set days \<and> 6 \<notin> set days"
    have sub: "set days \<subseteq> {1..5}"
    proof
      fix x assume x: "x \<in> set days"
      then have "0 \<le> x" "x \<le> 6" using assms(2) by auto
      moreover have "x \<noteq> 0" "x \<noteq> 6" using a x by auto
      ultimately show "x \<in> {1..5}" by simp
    qed
    have "card (set days) = card {1..5::int}" using a c by simp
    with sub show "set days = {1..5}" by (intro card_subset_eq) auto
  next
    assume "set days = {1..5}"
    then show "length days = 5 \<and> 0 \<notin> set days \<and> 6 \<notin> set days" using c by simp
  qed
qed

lemma weekends_iff:
  assumes "distinct (days::int list)"
  shows "length days = 2 \<and> 0 \<in> set days \<and> 6 \<in> set days \<longleftrightarrow> set days = {0, 6}"
proof -
  have c: "card (set days) = length days" using assms(1) by (rule distinct_card)
  show ?thesis
  proof
    assume a: "length days = 2 \<and> 0 \<in> set days \<and> 6 \<in> set days"
    have sub: "{0, 6} \<subseteq> set days" using a by simp
    have "card {0, 6::int} = card (set days)" using a c by simp
    with sub show "set days = {0, 6}" by (intro card_subset_eq[symmetric]) auto
  next
    assume "set days = {0, 6}"
    then show "length days = 2 \<and> 0 \<in> set days \<and> 6 \<in> set days" using c by simp
  qed
qed

lemma sorted_days_canonical:
  assumes "distinct (days::int list)" "set days \<subseteq> {0..6}" "sorted days"
  shows "days = filter (\<lambda>d. d \<in> set days) [0, 1, 2, 3, 4, 5, 6]"
proof (rule sorted_distinct_set_unique)
  show "sorted days" by fact
  show "distinct days" by fact
  show "sorted (filter (\<lambda>d. d \<in> set days) [0, 1, 2, 3, 4, 5, 6])"
    by (rule sorted_wrt_filter) simp
  show "distinct (filter (\<lambda>d. d \<in> set days) [0, 1, 2, 3, 4, 5, 6])"
    by (rule distinct_filter) simp
  have r: "x = 0 \<or> x = 1 \<or> x = 2 \<or> x = 3 \<or> x = 4 \<or> x = 5 \<or> x = 6"
    if "0 \<le> x" "x \<le> 6" for x :: int
    using that by arith
  have "x \<in> set [0, 1, 2, 3, 4, 5, 6]" if "x \<in> set days" for x
  proof -
    have "0 \<le> x" "x \<le> 6" using that assms(2) by auto
    then show ?thesis using r[of x] by auto
  qed
  then show "set days = set (filter (\<lambda>d. d \<in> set days) [0, 1, 2, 3, 4, 5, 6])"
    unfolding set_filter by blast
qed

text \<open>
  C9, as the code has it. For a duplicate-free list of weekdays 0..6, \<open>formatDays\<close>
  answers "Every day" for all seven days, "Weekdays" for exactly Monday to Friday and
  "Weekends" for exactly Sunday and Saturday. For any other set it joins the
  abbreviations in the order of the input list; that is the canonical Sunday-first
  order when the list is ascending (the reminder form keeps it so), and not otherwise.
\<close>

theorem formatDays_summary:
  assumes "distinct days" and "set days \<subseteq> {0..6}"
  shows "(set days = {0..6} \<longrightarrow> formatDays days = ''Every day'') \<and>
         (set days = {1..5} \<longrightarrow> formatDays days = ''Weekdays'') \<and>
         (set days = {0, 6} \<longrightarrow> formatDays days = ''Weekends'') \<and>
         (set days \<noteq> {0..6} \<and> set days \<noteq> {1..5} \<and> set days \<noteq> {0, 6} \<longrightarrow>
            formatDays days = join '', '' (map (\<lambda>d. js_index DAYS_SHORT d) days) \<and>
            (sorted days \<longrightarrow> formatDays days = canonical_labels (set days)))"
proof -
  note a = length7_iff[OF assms] and b = weekdays_iff[OF assms] and c = weekends_iff[OF assms(1)]
  have e: "set days = {0..6} \<longrightarrow> formatDays days = ''Every day''"
    using a by (simp add: formatDays_def)
  have w: "set days = {1..5} \<longrightarrow> formatDays days = ''Weekdays''"
  proof
    assume h: "set days = {1..5}"
    then have "length days = 5 \<and> 0 \<notin> set days \<and> 6 \<notin> set days" using b by blast
    then show "formatDays days = ''Weekdays''" by (simp add: formatDays_def)
  qed
  have k: "set days = {0, 6} \<longrightarrow> formatDays days = ''Weekends''"
  proof
    assume h: "set days = {0, 6}"
    then have "length days = 2 \<and> 0 \<in> set days \<and> 6 \<in> set days" using c by blast
    then show "formatDays days = ''Weekends''" by (simp add: formatDays_def)
  qed
  have o: "set days \<noteq> {0..6} \<and> set days \<noteq> {1..5} \<and> set days \<noteq> {0, 6} \<longrightarrow>
            formatDays days = join '', '' (map (\<lambda>d. js_index DAYS_SHORT d) days) \<and>
            (sorted days \<longrightarrow> formatDays days = canonical_labels (set days))"
  proof
    assume h: "set days \<noteq> {0..6} \<and> set days \<noteq> {1..5} \<and> set days \<noteq> {0, 6}"
    have n1: "length days \<noteq> 7" using h a by blast
    have n2: "\<not> (length days = 5 \<and> 0 \<notin> set days \<and> 6 \<notin> set days)" using h b by blast
    have n3: "\<not> (length days = 2 \<and> 0 \<in> set days \<and> 6 \<in> set days)" using h c by blast
    have f: "formatDays days = join '', '' (map (\<lambda>d. js_index DAYS_SHORT d) days)"
      unfolding formatDays_def using n1 n2 n3 by presburger
    have "sorted days \<longrightarrow> formatDays days = canonical_labels (set days)"
    proof
      assume "sorted days"
      then have "days = filter (\<lambda>d. d \<in> set days) [0, 1, 2, 3, 4, 5, 6]"
        using sorted_days_canonical[OF assms] by blast
      then have "canonical_labels (set days) = join '', '' (map (\<lambda>d. js_index DAYS_SHORT d) days)"
        unfolding canonical_labels_def by simp
      with f show "formatDays days = canonical_labels (set days)" by simp
    qed
    with f show "formatDays days = join '', '' (map (\<lambda>d. js_index DAYS_SHORT d) days) \<and>
            (sorted days \<longrightarrow> formatDays days = canonical_labels (set days))" by blast
  qed
  from e w k o show ?thesis by blast
qed

text \<open>The summary at Tuesday and Thursday, given in ascending order.\<close>

theorem formatDays_summary_witness:
  "distinct [2, 4 :: int] \<and> set [2, 4 :: int] \<subseteq> {0..6} \<and> sorted [2, 4 :: int] \<and>
   formatDays [2, 4] = ''Tue, Thu'' \<and> formatDays [2, 4] = canonical_labels (set [2, 4])"
proof -
  have d: "distinct [2, 4 :: int]" by simp
  have s: "set [2, 4 :: int] \<subseteq> {0..6}" by simp
  have n1: "set [2, 4 :: int] \<noteq> {0..6}"
  proof
    assume "set [2, 4 :: int] = {0..6}"
    then have "(0::int) \<in> set [2, 4]" by simp
    then show False by simp
  qed
  have n2: "set [2, 4 :: int] \<noteq> {1..5}"
  proof
    assume "set [2, 4 :: int] = {1..5}"
    then have "(1::int) \<in> set [2, 4]" by simp
    then show False by simp
  qed
  have n3: "set [2, 4 :: int] \<noteq> {0, 6}"
  proof
    assume "set [2, 4 :: int] = {0, 6}"
    then have "(0::int) \<in> set [2, 4]" by simp
    then show False by simp
  qed
  note n = conjI[OF n1 conjI[OF n2 n3]]
  have o: "sorted [2, 4 :: int]" by simp
  from formatDays_summary[OF d s] n o
  have f1: "formatDays [2, 4] = join '', '' (map (\<lambda>d. js_index DAYS_SHORT d) [2, 4])"
    and f2: "formatDays [2, 4] = canonical_labels (set [2, 4])" by blast+
  have j: "join '', '' (map (\<lambda>d. js_index DAYS_SHORT d) [2, 4]) = ''Tue, Thu''"
    by (simp add: DAYS_SHORT_def js_index_def)
  from f1 j have f3: "formatDays [2, 4] = ''Tue, Thu''" by (rule trans)
  from d s o f3 f2 show ?thesis by blast
qed

text \<open>
  The same two days in descending order: the output follows the input, not the
  canonical order.
\<close>

theorem formatDays_order_counterexample:
  "formatDays [4, 2] = ''Thu, Tue'' \<and> canonical_labels (set [4, 2]) = ''Tue, Thu'' \<and>
   formatDays [2, 4] = ''Tue, Thu''"
  by (simp add: formatDays_def canonical_labels_def DAYS_SHORT_def js_index_def)

text \<open>
  The copy on the settings screen reads the same stored lists with weekdays numbered
  from 1, so Monday to Friday is not summarised there.
\<close>

lemma getDayLabels_weekdays: "getDayLabels [1, 2, 3, 4, 5] = ''Sun, Mon, Tue, Wed, Thu''"
  by (simp add: getDayLabels_def js_index_def)


subsection \<open>The scheduler\<close>

lemma cancel_matching_scheduled:
  "scheduled (cancel_matching rid ns sch) =
     filter (\<lambda>n. req_identifier n \<notin> req_identifier ` {m \<in> set ns. data_reminderId m = Some rid})
       (scheduled sch)"
proof (induction ns arbitrary: sch)
  case Nil
  then show ?case by simp
next
  case (Cons n ns)
  show ?case
  proof (cases "data_reminderId n = Some rid")
    case True
    have "{m \<in> set (n # ns). data_reminderId m = Some rid}
            = insert n {m \<in> set ns. data_reminderId m = Some rid}"
      using True by auto
    then show ?thesis
      using True Cons.IH[of "cancelScheduledNotificationAsync (req_identifier n) sch"]
      by (simp add: cancelScheduledNotificationAsync_def conj_commute)
  next
    case False
    have "{m \<in> set (n # ns). data_reminderId m = Some rid}
            = {m \<in> set ns. data_reminderId m = Some rid}"
      using False by auto
    then show ?thesis using False Cons.IH[of sch] by simp
  qed
qed

lemma cancel_matching_next: "next_identifier (cancel_matching rid ns sch) = next_identifier sch"
  by (induction ns arbitrary: sch) (simp_all add: cancelScheduledNotificationAsync_def)

lemma cancelPetReminder_removes_all:
  "filter (\<lambda>n. data_reminderId n = Some rid) (scheduled (cancelPetReminder rid sch)) = []"
  by (auto simp: cancelPetReminder_def cancel_matching_scheduled filter_empty_conv)

lemma cancelPetReminder_next:
  "next_identifier (cancelPetReminder rid sch) = next_identifier sch"
  by (simp add: cancelPetReminder_def cancel_matching_next)

lemma cancelPetReminder_nothing_registered:
  assumes "filter (\<lambda>n. data_reminderId n = Some rid) (scheduled sch) = []"
  shows "cancelPetReminder rid sch = sch"
proof -
  have e: "{m \<in> set (scheduled sch). data_reminderId m = Some rid} = {}"
    using assms by (auto simp: filter_empty_conv)
  have "scheduled (cancelPetReminder rid sch) = scheduled sch"
    by (simp add: cancelPetReminder_def cancel_matching_scheduled e)
  moreover have "next_identifier (cancelPetReminder rid sch) = next_identifier sch"
    by (rule cancelPetReminder_next)
  ultimately show ?thesis by (simp add: scheduler.equality)
qed

lemma cancelPetReminder_keeps_others:
  assumes "distinct (map req_identifier (scheduled sch))"
  shows "scheduled (cancelPetReminder rid sch)
           = filter (\<lambda>n. data_reminderId n \<noteq> Some rid) (scheduled sch)"
proof -
  have inj: "inj_on req_identifier (set (scheduled sch))"
    using assms by (simp add: distinct_map)
  have "(req_identifier n \<notin> req_identifier ` {m \<in> set (scheduled sch). data_reminderId m = Some rid})
          = (data_reminderId n \<noteq> Some rid)"
    if n: "n \<in> set (scheduled sch)" for n
  proof
    assume a: "req_identifier n \<notin> req_identifier ` {m \<in> set (scheduled sch). data_reminderId m = Some rid}"
    show "data_reminderId n \<noteq> Some rid"
    proof
      assume "data_reminderId n = Some rid"
      then have "n \<in> {m \<in> set (scheduled sch). data_reminderId m = Some rid}" using n by simp
      then show False using a by blast
    qed
  next
    assume b: "data_reminderId n \<noteq> Some rid"
    show "req_identifier n \<notin> req_identifier ` {m \<in> set (scheduled sch). data_reminderId m = Some rid}"
    proof
      assume "req_identifier n \<in> req_identifier ` {m \<in> set (scheduled sch). data_reminderId m = Some rid}"
      then obtain m where m: "m \<in> set (scheduled sch)" "data_reminderId m = Some rid"
        "req_identifier n = req_identifier m" by auto
      then have "n = m" using inj n by (auto dest: inj_onD)
      then show False using b m(2) by simp
    qed
  qed
  then show ?thesis
    unfolding cancelPetReminder_def cancel_matching_scheduled by (intro filter_cong) auto
qed


lemma schedule_days_resolved:
  "fst (schedule_days r ds sch) = Resolved ids \<Longrightarrow>
   \<exists>new. scheduled (snd (schedule_days r ds sch)) = scheduled sch @ new \<and>
         map request_trigger new = map (\<lambda>d. WEEKLY d (hour (r_time r)) (minute (r_time r))) ds \<and>
         (\<forall>n \<in> set new. data_reminderId n = Some (r_id r) \<and> next_identifier sch \<le> req_identifier n)"
proof (induction ds arbitrary: sch ids)
  case Nil
  then show ?case by simp
next
  case (Cons d ds)
  let ?req = "reminder_request r d"
  have acc: "trigger_accepted (request_trigger ?req)"
  proof (rule ccontr)
    assume "\<not> trigger_accepted (request_trigger ?req)"
    then have "fst (schedule_days r (d # ds) sch) = Rejected (Some ''RangeError'')"
      by (simp add: scheduleNotificationAsync_def)
    with Cons.prems show False by simp
  qed
  let ?first = "?req\<lparr>req_identifier := next_identifier sch\<rparr>"
  let ?sch' = "sch\<lparr>scheduled := scheduled sch @ [?first],
                     next_identifier := Suc (next_identifier sch)\<rparr>"
  have step: "scheduleNotificationAsync ?req sch = (Resolved (next_identifier sch), ?sch')"
    using acc by (simp add: scheduleNotificationAsync_def)
  obtain res sch'' where rest: "schedule_days r ds ?sch' = (res, sch'')"
    by (cases "schedule_days r ds ?sch'")
  obtain ids' where ids': "res = Resolved ids'"
    using Cons.prems step rest by (cases res) simp_all
  have whole: "snd (schedule_days r (d # ds) sch) = sch''"
    using step rest ids' by simp
  from Cons.IH[of ?sch' ids'] rest ids' obtain new where
    n: "scheduled sch'' = scheduled ?sch' @ new"
       "map request_trigger new = map (\<lambda>d. WEEKLY d (hour (r_time r)) (minute (r_time r))) ds"
       "\<forall>n \<in> set new. data_reminderId n = Some (r_id r) \<and> next_identifier ?sch' \<le> req_identifier n"
    by auto
  have s: "scheduled (snd (schedule_days r (d # ds) sch)) = scheduled sch @ (?first # new)"
    unfolding whole n(1) by simp
  have t: "map request_trigger (?first # new)
             = map (\<lambda>d. WEEKLY d (hour (r_time r)) (minute (r_time r))) (d # ds)"
    using n(2) by (simp add: reminder_request_def)
  have i: "\<forall>n \<in> set (?first # new).
             data_reminderId n = Some (r_id r) \<and> next_identifier sch \<le> req_identifier n"
    using n(3) by (auto simp: reminder_request_def)
  from s t i show ?case by blast
qed

lemma schedule_days_accepts:
  "list_all (\<lambda>d. trigger_accepted (WEEKLY d (hour (r_time r)) (minute (r_time r)))) ds \<Longrightarrow>
   \<exists>ids. fst (schedule_days r ds sch) = Resolved ids"
proof (induction ds arbitrary: sch)
  case Nil
  then show ?case by simp
next
  case (Cons d ds)
  let ?req = "reminder_request r d"
  have acc: "trigger_accepted (request_trigger ?req)"
    using Cons.prems by (simp add: reminder_request_def)
  let ?sch' = "sch\<lparr>scheduled := scheduled sch @ [?req\<lparr>req_identifier := next_identifier sch\<rparr>],
                     next_identifier := Suc (next_identifier sch)\<rparr>"
  have step: "scheduleNotificationAsync ?req sch = (Resolved (next_identifier sch), ?sch')"
    using acc by (simp add: scheduleNotificationAsync_def)
  from Cons.IH[of ?sch'] Cons.prems obtain ids where
    ids: "fst (schedule_days r ds ?sch') = Resolved ids" by auto
  obtain sch'' where rest: "schedule_days r ds ?sch' = (Resolved ids, sch'')"
    using ids by (cases "schedule_days r ds ?sch'") simp
  show ?case using step rest by simp
qed

lemma schedulePetReminder_accepts:
  "all_accepted r \<Longrightarrow> \<exists>ids. fst (schedulePetReminder r sch) = Resolved ids"
  using schedule_days_accepts[of r "r_daysOfWeek r" "cancelPetReminder (r_id r) sch"]
  by (auto simp: schedulePetReminder_def all_accepted_def Let_def)

lemma schedulePetReminder_triggers:
  assumes "fst (schedulePetReminder r sch) = Resolved ids"
  shows "map request_trigger
           (filter (\<lambda>n. data_reminderId n = Some (r_id r))
              (scheduled (snd (schedulePetReminder r sch))))
         = (if r_enabled r
            then map (\<lambda>d. WEEKLY d (hour (r_time r)) (minute (r_time r))) (r_daysOfWeek r) else []) \<and>
         (\<forall>n \<in> set (filter (\<lambda>n. data_reminderId n = Some (r_id r))
                       (scheduled (snd (schedulePetReminder r sch)))).
            next_identifier sch \<le> req_identifier n)"
proof (cases "\<not> r_enabled r \<or> length (r_daysOfWeek r) = 0")
  case True
  then have "snd (schedulePetReminder r sch) = cancelPetReminder (r_id r) sch"
    by (auto simp: schedulePetReminder_def Let_def)
  then show ?thesis using True cancelPetReminder_removes_all[of "r_id r" sch] by auto
next
  case False
  let ?sch1 = "cancelPetReminder (r_id r) sch"
  have e: "schedulePetReminder r sch = schedule_days r (r_daysOfWeek r) ?sch1"
    using False by (auto simp: schedulePetReminder_def Let_def)
  from schedule_days_resolved[of r "r_daysOfWeek r" ?sch1 ids] assms e obtain new where
    n: "scheduled (snd (schedule_days r (r_daysOfWeek r) ?sch1)) = scheduled ?sch1 @ new"
       "map request_trigger new
          = map (\<lambda>d. WEEKLY d (hour (r_time r)) (minute (r_time r))) (r_daysOfWeek r)"
       "\<forall>n \<in> set new. data_reminderId n = Some (r_id r) \<and> next_identifier ?sch1 \<le> req_identifier n"
    by auto
  have f: "filter (\<lambda>n. data_reminderId n = Some (r_id r)) new = new"
    using n(3) by (simp add: filter_id_conv)
  have "filter (\<lambda>n. data_reminderId n = Some (r_id r)) (scheduled (snd (schedulePetReminder r sch)))
          = new"
    using e n(1) f cancelPetReminder_removes_all[of "r_id r" sch] by simp
  then show ?thesis using False n(2) n(3) by (simp add: cancelPetReminder_next)
qed


subsection \<open>Creating records\<close>

lemma addPet_signed_out_result:
  assumes "supabase_configured e" "\<not> current_user e"
  shows "addPet e d s =
           (Some (''local_'' @ string_of_nat (date_now e)),
            s\<lparr>pets := d\<lparr>p_id := ''local_'' @ string_of_nat (date_now e),
                          p_createdAt := Some (iso_now e),
                          p_updatedAt := Some (iso_now e)\<rparr> # pets s,
              loading := False, error := None, pendingChanges := True\<rparr>,
            [])"
  using assms by (simp add: addPet_def addPet_offline_def getCurrentUser_def Let_def)

lemma addPetReminder_signed_out_result:
  assumes "supabase_configured e" "\<not> current_user e"
  shows "fst (snd (addPetReminder e d s sch)) =
            s\<lparr>petReminders := petReminders s @ [d\<lparr>r_id := ''local_'' @ string_of_nat (date_now e)\<rparr>],
              n_pendingChanges := True\<rparr> \<and>
         snd (snd (snd (addPetReminder e d s sch))) = [] \<and>
         ((pushEnabled (settings s) \<and> reminders (settings s) \<and> r_enabled d \<longrightarrow> all_accepted d)
            \<longrightarrow> fst (addPetReminder e d s sch) = Some (''local_'' @ string_of_nat (date_now e)))"
proof -
  let ?new = "d\<lparr>r_id := ''local_'' @ string_of_nat (date_now e)\<rparr>"
  let ?s' = "s\<lparr>petReminders := petReminders s @ [?new], n_pendingChanges := True\<rparr>"
  have run: "addPetReminder e d s sch = addPetReminder_stored ?new ?s' sch []"
    using assms by (simp add: addPetReminder_def addPetReminder_offline_def getCurrentUser_def Let_def)
  have st: "fst (snd (addPetReminder_stored ?new ?s' sch [])) = ?s'"
    and cs: "snd (snd (snd (addPetReminder_stored ?new ?s' sch []))) = []"
    by (simp_all add: addPetReminder_stored_def split: prod.splits outcome.splits)
  have "fst (addPetReminder_stored ?new ?s' sch []) = Some (r_id ?new)"
    if h: "pushEnabled (settings s) \<and> reminders (settings s) \<and> r_enabled d \<longrightarrow> all_accepted d"
  proof (cases "pushEnabled (settings s) \<and> reminders (settings s) \<and> r_enabled d")
    case True
    then have "all_accepted ?new" using h by (simp add: all_accepted_def)
    then obtain ids where "fst (schedulePetReminder ?new sch) = Resolved ids"
      using schedulePetReminder_accepts by blast
    then obtain sch' where "schedulePetReminder ?new sch = (Resolved ids, sch')"
      by (cases "schedulePetReminder ?new sch") simp
    then show ?thesis
      using True by (simp add: addPetReminder_stored_def)
  next
    case False
    then show ?thesis by (auto simp: addPetReminder_stored_def)
  qed
  then show ?thesis using run st cs by simp
qed

lemma sample_timestamp: "string_of_nat 1700000000000 = ''1700000000000''"
  by (simp add: string_of_nat.simps digit_char_def)

text \<open>
  C10. An offline create (configured device, nobody signed in) names the new record
  \<open>local_\<close> followed by the millisecond clock. Two such creates on the same store
  within one millisecond therefore put two records under the same id into the store,
  for pets and for reminders. Both calls return that id; for a reminder this needs the
  scheduler not to refuse it, that is: the gate is off, or the reminder is disabled, or
  all its triggers are accepted.
\<close>

theorem local_id_same_millisecond:
  assumes "supabase_configured e1" and "\<not> current_user e1"
      and "supabase_configured e2" and "\<not> current_user e2"
      and "date_now e2 = date_now e1"
      and "supabase_configured f1" and "\<not> current_user f1"
      and "supabase_configured f2" and "\<not> current_user f2"
      and "date_now f2 = date_now f1"
  shows "(let lid = ''local_'' @ string_of_nat (date_now e1);
              (r1, s1, c1) = addPet e1 d1 s;
              (r2, s2, c2) = addPet e2 d2 s1
          in r1 = Some lid \<and> r2 = Some lid \<and>
             pets s2 =
               d2\<lparr>p_id := lid, p_createdAt := Some (iso_now e2), p_updatedAt := Some (iso_now e2)\<rparr>
               # d1\<lparr>p_id := lid, p_createdAt := Some (iso_now e1), p_updatedAt := Some (iso_now e1)\<rparr>
               # pets s) \<and>
         (let lid = ''local_'' @ string_of_nat (date_now f1);
              (r1, n1, sch1, c1) = addPetReminder f1 m1 n sch;
              (r2, n2, sch2, c2) = addPetReminder f2 m2 n1 sch1
          in petReminders n2 = petReminders n @ [m1\<lparr>r_id := lid\<rparr>, m2\<lparr>r_id := lid\<rparr>] \<and>
             ((pushEnabled (settings n) \<and> reminders (settings n) \<and> r_enabled m1 \<longrightarrow> all_accepted m1)
                \<longrightarrow> r1 = Some lid) \<and>
             ((pushEnabled (settings n) \<and> reminders (settings n) \<and> r_enabled m2 \<longrightarrow> all_accepted m2)
                \<longrightarrow> r2 = Some lid))"
proof -
  have p: "(let lid = ''local_'' @ string_of_nat (date_now e1);
              (r1, s1, c1) = addPet e1 d1 s;
              (r2, s2, c2) = addPet e2 d2 s1
          in r1 = Some lid \<and> r2 = Some lid \<and>
             pets s2 =
               d2\<lparr>p_id := lid, p_createdAt := Some (iso_now e2), p_updatedAt := Some (iso_now e2)\<rparr>
               # d1\<lparr>p_id := lid, p_createdAt := Some (iso_now e1), p_updatedAt := Some (iso_now e1)\<rparr>
               # pets s)"
    using assms(5)
    by (simp add: addPet_signed_out_result[OF assms(1,2)] addPet_signed_out_result[OF assms(3,4)])
  let ?n1 = "fst (snd (addPetReminder f1 m1 n sch))"
  let ?sch1 = "fst (snd (snd (addPetReminder f1 m1 n sch)))"
  note a = addPetReminder_signed_out_result[OF assms(6,7), of m1 n sch]
  note b = addPetReminder_signed_out_result[OF assms(8,9), of m2 ?n1 ?sch1]
  have g: "settings ?n1 = settings n" using a by simp
  have r: "(let lid = ''local_'' @ string_of_nat (date_now f1);
              (r1, n1, sch1, c1) = addPetReminder f1 m1 n sch;
              (r2, n2, sch2, c2) = addPetReminder f2 m2 n1 sch1
          in petReminders n2 = petReminders n @ [m1\<lparr>r_id := lid\<rparr>, m2\<lparr>r_id := lid\<rparr>] \<and>
             ((pushEnabled (settings n) \<and> reminders (settings n) \<and> r_enabled m1 \<longrightarrow> all_accepted m1)
                \<longrightarrow> r1 = Some lid) \<and>
             ((pushEnabled (settings n) \<and> reminders (settings n) \<and> r_enabled m2 \<longrightarrow> all_accepted m2)
                \<longrightarrow> r2 = Some lid))"
    using assms(10) a b g by (simp add: Let_def case_prod_beta)
  from p r show ?thesis by blast
qed

text \<open>
  Rex and Tom, then the breakfast and the walk, created at the same millisecond on a
  configured device with nobody signed in.
\<close>

theorem local_id_same_millisecond_witness:
  "fst (addPet signed_out_env rex no_pets) = Some ''local_1700000000000'' \<and>
   fst (addPet signed_out_env tom (fst (snd (addPet signed_out_env rex no_pets))))
     = Some ''local_1700000000000'' \<and>
   map (\<lambda>p. (p_id p, p_name p))
     (pets (fst (snd (addPet signed_out_env tom (fst (snd (addPet signed_out_env rex no_pets)))))))
     = [(''local_1700000000000'', ''Tom''), (''local_1700000000000'', ''Rex'')] \<and>
   fst (addPetReminder signed_out_env breakfast no_reminders no_notifications)
     = Some ''local_1700000000000'' \<and>
   fst (addPetReminder signed_out_env walk_time
        (fst (snd (addPetReminder signed_out_env breakfast no_reminders no_notifications)))
        (fst (snd (snd (addPetReminder signed_out_env breakfast no_reminders no_notifications)))))
     = Some ''local_1700000000000'' \<and>
   map (\<lambda>r. (r_id r, r_title r))
     (petReminders (fst (snd (addPetReminder signed_out_env walk_time
        (fst (snd (addPetReminder signed_out_env breakfast no_reminders no_notifications)))
        (fst (snd (snd (addPetReminder signed_out_env breakfast no_reminders no_notifications))))))))
     = [(''local_1700000000000'', ''Breakfast''), (''local_1700000000000'', ''Walk'')]"
proof -
  have off: "supabase_configured (signed_out_env :: pet env)"
    "\<not> current_user (signed_out_env :: pet env)"
    by (simp_all add: signed_out_env_def)
  have off': "supabase_configured (signed_out_env :: pet_reminder env)"
    "\<not> current_user (signed_out_env :: pet_reminder env)"
    by (simp_all add: signed_out_env_def)
  have now: "date_now (signed_out_env :: pet env) = 1700000000000"
    "date_now (signed_out_env :: pet_reminder env) = 1700000000000"
    by (simp_all add: signed_out_env_def)
  have acc: "all_accepted breakfast" "all_accepted walk_time"
    by (simp_all add: all_accepted_def trigger_accepted_def breakfast_def walk_time_def)
  note t = local_id_same_millisecond[OF off off refl off' off' refl,
      of rex no_pets tom breakfast no_reminders no_notifications walk_time]
  show ?thesis
    using t acc
    by (simp add: Let_def case_prod_beta now sample_timestamp rex_def tom_def no_pets_def
        breakfast_def walk_time_def no_reminders_def)
qed

text \<open>
  On a device that is not configured \<open>getCurrentUser\<close> rejects and no create stores
  anything; and a reminder on day 0, created with the gate on, is stored but answered
  with \<^verbatim>\<open>null\<close>, the scheduler having refused it.
\<close>

lemma create_unconfigured:
  assumes "\<not> supabase_configured e" and "\<not> supabase_configured f"
  shows "fst (addPet e d s) = None \<and> pets (fst (snd (addPet e d s))) = pets s \<and>
         pendingChanges (fst (snd (addPet e d s))) = pendingChanges s"
    and "addPetReminder f m n sch = (None, n, sch, [])"
  using assms by (simp_all add: addPet_def addPetReminder_def getCurrentUser_def Let_def)

lemma create_refused_by_scheduler:
  "addPetReminder signed_out_env sunday_brush no_reminders no_notifications =
     (None,
      no_reminders\<lparr>petReminders := [sunday_brush\<lparr>r_id := ''local_1700000000000''\<rparr>],
        n_pendingChanges := True\<rparr>,
      no_notifications, [])"
  by (simp add: addPetReminder_def addPetReminder_offline_def addPetReminder_stored_def
      getCurrentUser_def signed_out_env_def sample_timestamp no_reminders_def DEFAULT_SETTINGS_def
      sunday_brush_def schedulePetReminder_def cancelPetReminder_def no_notifications_def
      scheduleNotificationAsync_def reminder_request_def trigger_accepted_def Let_def)

lemma addPet_failure_result:
  assumes "supabase_configured e" "current_user e" "gateway_failed (db_answer e 0)"
  shows "fst (addPet e d s) = None \<and> pets (fst (snd (addPet e d s))) = pets s \<and>
         pendingChanges (fst (snd (addPet e d s))) = pendingChanges s \<and>
         snd (snd (addPet e d s)) = [DbCreate ''pets'' d]"
  using assms
  by (auto simp: addPet_def getCurrentUser_def gateway_failed_def Let_def
      split: outcome.splits option.splits)

lemma addPetReminder_failure_result:
  assumes "supabase_configured e" "current_user e" "gateway_failed (db_answer e 0)"
  shows "addPetReminder e d s sch = (None, s, sch, [DbCreate ''pet_reminders'' d])"
  using assms
  by (auto simp: addPetReminder_def getCurrentUser_def gateway_failed_def Let_def
      split: outcome.splits option.splits)

text \<open>
  C3, as the code has it. A create attempted signed in whose Gateway write fails
  stores nothing, leaves the pending flag as it was and returns \<^verbatim>\<open>null\<close>. A create
  made on a configured device with nobody signed in issues no Gateway call and stores
  the record at once under a \<open>local_\<close> id with the pending flag set; it returns that
  id, for a reminder provided the scheduler is not asked (gate off or reminder
  disabled) or accepts all its triggers. This is so for pets and for reminders.
\<close>

theorem create_offline_or_refused:
  "(supabase_configured e \<and> \<not> current_user e \<longrightarrow>
      addPet e d s =
        (Some (''local_'' @ string_of_nat (date_now e)),
         s\<lparr>pets := d\<lparr>p_id := ''local_'' @ string_of_nat (date_now e),
                       p_createdAt := Some (iso_now e),
                       p_updatedAt := Some (iso_now e)\<rparr> # pets s,
           loading := False, error := None, pendingChanges := True\<rparr>,
         [])) \<and>
   (supabase_configured e \<and> current_user e \<and> gateway_failed (db_answer e 0) \<longrightarrow>
      fst (addPet e d s) = None \<and> pets (fst (snd (addPet e d s))) = pets s \<and>
      pendingChanges (fst (snd (addPet e d s))) = pendingChanges s) \<and>
   (supabase_configured f \<and> \<not> current_user f \<longrightarrow>
      fst (snd (addPetReminder f m n sch)) =
        n\<lparr>petReminders := petReminders n @ [m\<lparr>r_id := ''local_'' @ string_of_nat (date_now f)\<rparr>],
          n_pendingChanges := True\<rparr> \<and>
      snd (snd (snd (addPetReminder f m n sch))) = [] \<and>
      ((pushEnabled (settings n) \<and> reminders (settings n) \<and> r_enabled m \<longrightarrow> all_accepted m)
         \<longrightarrow> fst (addPetReminder f m n sch) = Some (''local_'' @ string_of_nat (date_now f)))) \<and>
   (supabase_configured f \<and> current_user f \<and> gateway_failed (db_answer f 0) \<longrightarrow>
      addPetReminder f m n sch = (None, n, sch, [DbCreate ''pet_reminders'' m]))"
  using addPet_signed_out_result[of e d s] addPet_failure_result[of e d s]
    addPetReminder_signed_out_result[of f m n sch] addPetReminder_failure_result[of f m n sch]
  by blast

text \<open>
  Rex and the breakfast created with nobody signed in, and again signed in against a
  Gateway that fails.
\<close>

theorem create_offline_or_refused_witness:
  "supabase_configured (signed_out_env :: pet env) \<and>
   current_user (signed_out_env :: pet env) = False \<and>
   fst (addPet signed_out_env rex no_pets) = Some ''local_1700000000000'' \<and>
   map p_id (pets (fst (snd (addPet signed_out_env rex no_pets)))) = [''local_1700000000000''] \<and>
   pendingChanges (fst (snd (addPet signed_out_env rex no_pets))) \<and>
   gateway_failed (db_answer (online_env failing_gateway :: pet env) 0) \<and>
   fst (addPet (online_env failing_gateway) rex no_pets) = None \<and>
   pets (fst (snd (addPet (online_env failing_gateway) rex no_pets))) = [] \<and>
   all_accepted breakfast \<and>
   fst (addPetReminder signed_out_env breakfast no_reminders no_notifications)
     = Some ''local_1700000000000'' \<and>
   fst (addPetReminder (online_env failing_gateway) breakfast no_reminders no_notifications) = None"
proof -
  have off: "supabase_configured (signed_out_env :: pet env) \<and>
             \<not> current_user (signed_out_env :: pet env)"
    by (simp add: signed_out_env_def)
  have off': "supabase_configured (signed_out_env :: pet_reminder env) \<and>
              \<not> current_user (signed_out_env :: pet_reminder env)"
    by (simp add: signed_out_env_def)
  have on: "supabase_configured (online_env failing_gateway :: pet env)
            \<and> current_user (online_env failing_gateway :: pet env)
            \<and> gateway_failed (db_answer (online_env failing_gateway :: pet env) 0)"
    by (simp add: online_env_def failing_gateway_def gateway_error_def gateway_failed_def)
  have on': "supabase_configured (online_env failing_gateway :: pet_reminder env)
            \<and> current_user (online_env failing_gateway :: pet_reminder env)
            \<and> gateway_failed (db_answer (online_env failing_gateway :: pet_reminder env) 0)"
    by (simp add: online_env_def failing_gateway_def gateway_error_def gateway_failed_def)
  have now: "date_now (signed_out_env :: pet env) = 1700000000000"
    "date_now (signed_out_env :: pet_reminder env) = 1700000000000"
    by (simp_all add: signed_out_env_def)
  have acc: "all_accepted breakfast"
    by (simp add: all_accepted_def trigger_accepted_def breakfast_def)
  note a = create_offline_or_refused[of signed_out_env rex no_pets signed_out_env breakfast
      no_reminders no_notifications]
  note b = create_offline_or_refused[of "online_env failing_gateway" rex no_pets
      "online_env failing_gateway" breakfast no_reminders no_notifications]
  from a off off' acc
  have a1: "fst (addPet signed_out_env rex no_pets) = Some ''local_1700000000000''"
    and a2: "map p_id (pets (fst (snd (addPet signed_out_env rex no_pets)))) = [''local_1700000000000'']"
    and a3: "pendingChanges (fst (snd (addPet signed_out_env rex no_pets)))"
    and a4: "fst (addPetReminder signed_out_env breakfast no_reminders no_notifications)
               = Some ''local_1700000000000''"
    by (simp_all add: now sample_timestamp no_pets_def)
  from b on on' have b1: "fst (addPet (online_env failing_gateway) rex no_pets) = None"
    and b2: "pets (fst (snd (addPet (online_env failing_gateway) rex no_pets))) = []"
    and b3: "fst (addPetReminder (online_env failing_gateway) breakfast no_reminders no_notifications)
               = None"
    by (simp_all add: no_pets_def)
  from off on acc a1 a2 a3 a4 b1 b2 b3 show ?thesis by simp
qed

text \<open>
  The claim as written fails: with the Gateway failing, neither store keeps the record
  and both creates return \<^verbatim>\<open>null\<close>.
\<close>

theorem create_failure_counterexample:
  "gateway_failed (failing_gateway 0 :: pet db_result outcome) \<and>
   addPet (online_env failing_gateway) rex no_pets =
     (None, no_pets\<lparr>error := Some ''Failed to save pet''\<rparr>, [DbCreate ''pets'' rex]) \<and>
   addPetReminder (online_env failing_gateway) breakfast no_reminders no_notifications =
     (None, no_reminders, no_notifications, [DbCreate ''pet_reminders'' breakfast])"
  by (simp add: addPet_def addPetReminder_def getCurrentUser_def online_env_def
      failing_gateway_def gateway_error_def gateway_failed_def no_pets_def Let_def)


subsection \<open>Deleting a pet\<close>

lemma home_notifications:
  "map (\<lambda>n. (req_identifier n, data_reminderId n, data_petId n, request_trigger n))
     (scheduled (notifications home)) =
   [(0, Some ''r1'', Some ''7f3c'', WEEKLY 1 8 0),
    (1, Some ''r1'', Some ''7f3c'', WEEKLY 2 8 0),
    (2, Some ''r1'', Some ''7f3c'', WEEKLY 3 8 0),
    (3, Some ''r1'', Some ''7f3c'', WEEKLY 4 8 0),
    (4, Some ''r1'', Some ''7f3c'', WEEKLY 5 8 0),
    (5, Some ''r2'', Some ''91ab'', WEEKLY 3 18 30),
    (6, Some ''r2'', Some ''91ab'', WEEKLY 6 18 30)]"
  by (simp add: home_def scheduleAllReminders_def synced_reminders_def no_reminders_def
      DEFAULT_SETTINGS_def breakfast_def walk_time_def schedulePetReminder_def
      cancelPetReminder_def no_notifications_def scheduleNotificationAsync_def
      reminder_request_def cancelScheduledNotificationAsync_def trigger_accepted_def)

lemma home_next_identifier: "next_identifier (notifications home) = 7"
  by (simp add: home_def scheduleAllReminders_def synced_reminders_def no_reminders_def
      DEFAULT_SETTINGS_def breakfast_def walk_time_def schedulePetReminder_def
      cancelPetReminder_def no_notifications_def scheduleNotificationAsync_def
      reminder_request_def cancelScheduledNotificationAsync_def trigger_accepted_def)

text \<open>
  C1 at a failing input. The application holds Rex with his checkup, his breakfast
  reminder and its five triggers. \<open>deletePet\<close> on Rex, signed in with the Gateway
  accepting the removal, reports success and removes Rex from the pet store; the
  checkup, the reminder and the five triggers that reference him all remain.
\<close>

theorem deletePet_leaves_dependents:
  "app_deletePet (online_env accepting_gateway) ''7f3c'' home =
     (True, home\<lparr>petStore := synced_pets\<lparr>pets := [tom]\<rparr>\<rparr>, [DbRemove ''pets'' ''7f3c'']) \<and>
   map a_petId (appointments (appointmentStore (home\<lparr>petStore := synced_pets\<lparr>pets := [tom]\<rparr>\<rparr>)))
     = [''7f3c''] \<and>
   getPetReminders (notificationStore (home\<lparr>petStore := synced_pets\<lparr>pets := [tom]\<rparr>\<rparr>)) ''7f3c''
     = [breakfast] \<and>
   map request_trigger
     (filter (\<lambda>n. data_petId n = Some ''7f3c'')
        (scheduled (notifications (home\<lparr>petStore := synced_pets\<lparr>pets := [tom]\<rparr>\<rparr>))))
     = [WEEKLY 1 8 0, WEEKLY 2 8 0, WEEKLY 3 8 0, WEEKLY 4 8 0, WEEKLY 5 8 0]"
proof -
  have d: "app_deletePet (online_env accepting_gateway) ''7f3c'' home =
     (True, home\<lparr>petStore := synced_pets\<lparr>pets := [tom]\<rparr>\<rparr>, [DbRemove ''pets'' ''7f3c''])"
    by (simp add: app_deletePet_def deletePet_def getCurrentUser_def online_env_def
        accepting_gateway_def gateway_done_def home_def synced_pets_def rex_def tom_def
        startsWith_def Let_def)
  have a: "map a_petId (appointments (appointmentStore (home\<lparr>petStore := synced_pets\<lparr>pets := [tom]\<rparr>\<rparr>)))
     = [''7f3c'']"
    by (simp add: home_def synced_appointments_def checkup_def)
  have r: "getPetReminders (notificationStore (home\<lparr>petStore := synced_pets\<lparr>pets := [tom]\<rparr>\<rparr>)) ''7f3c''
     = [breakfast]"
    by (simp add: home_def getPetReminders_def synced_reminders_def breakfast_def walk_time_def)
  have t: "map request_trigger
     (filter (\<lambda>n. data_petId n = Some ''7f3c'')
        (scheduled (notifications (home\<lparr>petStore := synced_pets\<lparr>pets := [tom]\<rparr>\<rparr>))))
     = [WEEKLY 1 8 0, WEEKLY 2 8 0, WEEKLY 3 8 0, WEEKLY 4 8 0, WEEKLY 5 8 0]"
    by (simp add: home_def scheduleAllReminders_def synced_reminders_def no_reminders_def
      DEFAULT_SETTINGS_def breakfast_def walk_time_def schedulePetReminder_def
      cancelPetReminder_def no_notifications_def scheduleNotificationAsync_def
      reminder_request_def cancelScheduledNotificationAsync_def trigger_accepted_def)
  from d a r t show ?thesis by blast
qed

text \<open>Whatever the input, \<open>deletePet\<close> writes the pet store only.\<close>

lemma app_deletePet_frame:
  "appointmentStore (fst (snd (app_deletePet e i a))) = appointmentStore a \<and>
   notificationStore (fst (snd (app_deletePet e i a))) = notificationStore a \<and>
   notifications (fst (snd (app_deletePet e i a))) = notifications a"
  by (simp add: app_deletePet_def split: prod.splits)


subsection \<open>Updating and removing records\<close>

lemma updatePet_failure_result:
  assumes "supabase_configured e" "current_user e" "\<not> startsWith i ''local_''"
    "gateway_failed (db_answer e 0)"
  shows "fst (updatePet e i d s) = False \<and> pets (fst (snd (updatePet e i d s))) = pets s \<and>
         pendingChanges (fst (snd (updatePet e i d s))) = pendingChanges s \<and>
         error (fst (snd (updatePet e i d s))) \<noteq> None"
  using assms
  by (auto simp: updatePet_def getCurrentUser_def gateway_failed_def Let_def
      split: outcome.splits option.splits)

lemma deletePet_failure_result:
  assumes "supabase_configured e" "current_user e" "\<not> startsWith i ''local_''"
    "gateway_failed (db_answer e 0)"
  shows "fst (deletePet e i s) = False \<and> pets (fst (snd (deletePet e i s))) = pets s \<and>
         pendingChanges (fst (snd (deletePet e i s))) = pendingChanges s \<and>
         error (fst (snd (deletePet e i s))) \<noteq> None"
  using assms
  by (auto simp: deletePet_def getCurrentUser_def gateway_failed_def Let_def
      split: outcome.splits option.splits)

lemma updateAppointment_failure_result:
  assumes "supabase_configured e" "current_user e" "\<not> startsWith i ''local_''"
    "gateway_failed (db_answer e 0)"
  shows "fst (updateAppointment e i d s) = False \<and>
         appointments (fst (snd (updateAppointment e i d s))) = appointments s \<and>
         apt_pendingChanges (fst (snd (updateAppointment e i d s))) = apt_pendingChanges s \<and>
         apt_error (fst (snd (updateAppointment e i d s))) \<noteq> None"
  using assms
  by (auto simp: updateAppointment_def getCurrentUser_def gateway_failed_def Let_def
      split: outcome.splits option.splits)

lemma deleteAppointment_failure_result:
  assumes "supabase_configured e" "current_user e" "\<not> startsWith i ''local_''"
    "gateway_failed (db_answer e 0)"
  shows "fst (deleteAppointment e i s) = False \<and>
         appointments (fst (snd (deleteAppointment e i s))) = appointments s \<and>
         apt_pendingChanges (fst (snd (deleteAppointment e i s))) = apt_pendingChanges s \<and>
         apt_error (fst (snd (deleteAppointment e i s))) \<noteq> None"
  using assms
  by (auto simp: deleteAppointment_def getCurrentUser_def gateway_failed_def Let_def
      split: outcome.splits option.splits)

lemma updatePetReminder_failure_result:
  assumes "supabase_configured e" "current_user e" "\<not> startsWith i ''local_''"
    "gateway_failed (db_answer e 0)"
  shows "fst (updatePetReminder e i u s sch) = False \<and>
         fst (snd (updatePetReminder e i u s sch)) = s \<and>
         fst (snd (snd (updatePetReminder e i u s sch))) = sch"
  using assms
  by (auto simp: updatePetReminder_def getCurrentUser_def gateway_failed_def Let_def
      split: outcome.splits option.splits)

lemma deletePetReminder_failure_result:
  assumes "supabase_configured e" "current_user e" "\<not> startsWith i ''local_''"
    "gateway_failed (db_answer e 0)"
  shows "fst (deletePetReminder e i s sch) = False \<and>
         fst (snd (deletePetReminder e i s sch)) = s \<and>
         fst (snd (snd (deletePetReminder e i s sch))) = cancelPetReminder i sch"
  using assms
  by (auto simp: deletePetReminder_def getCurrentUser_def gateway_failed_def Let_def
      split: outcome.splits option.splits)

text \<open>
  C5, as the code has it. An update or a remove of a record with a Remote id, made
  signed in and configured, whose Gateway call fails returns \<^verbatim>\<open>false\<close>; the
  in-memory collection and the pending flag stay as they were. This is so in all
  three stores. The pet store and the appointment store record an error message (the
  notification store has no field for one). After a failed \<open>updatePetReminder\<close> the
  scheduler is as before; after a failed \<open>deletePetReminder\<close> the reminder is still
  stored and the scheduler is what cancelling its triggers, done before the Gateway
  call, left.
\<close>

theorem remote_failure_keeps_local_state:
  assumes "supabase_configured e" and "current_user e" and "\<not> startsWith i ''local_''"
      and "gateway_failed (db_answer e 0)"
      and "supabase_configured g" and "current_user g" and "\<not> startsWith j ''local_''"
      and "gateway_failed (db_answer g 0)"
      and "supabase_configured f" and "current_user f" and "\<not> startsWith k ''local_''"
      and "gateway_failed (db_answer f 0)"
  shows "fst (updatePet e i d s) = False \<and> pets (fst (snd (updatePet e i d s))) = pets s \<and>
         pendingChanges (fst (snd (updatePet e i d s))) = pendingChanges s \<and>
         error (fst (snd (updatePet e i d s))) \<noteq> None \<and>
         fst (deletePet e i s) = False \<and> pets (fst (snd (deletePet e i s))) = pets s \<and>
         pendingChanges (fst (snd (deletePet e i s))) = pendingChanges s \<and>
         error (fst (snd (deletePet e i s))) \<noteq> None \<and>
         fst (updateAppointment g j c a) = False \<and>
         appointments (fst (snd (updateAppointment g j c a))) = appointments a \<and>
         apt_pendingChanges (fst (snd (updateAppointment g j c a))) = apt_pendingChanges a \<and>
         apt_error (fst (snd (updateAppointment g j c a))) \<noteq> None \<and>
         fst (deleteAppointment g j a) = False \<and>
         appointments (fst (snd (deleteAppointment g j a))) = appointments a \<and>
         apt_pendingChanges (fst (snd (deleteAppointment g j a))) = apt_pendingChanges a \<and>
         apt_error (fst (snd (deleteAppointment g j a))) \<noteq> None \<and>
         fst (updatePetReminder f k u n sch) = False \<and>
         fst (snd (updatePetReminder f k u n sch)) = n \<and>
         fst (snd (snd (updatePetReminder f k u n sch))) = sch \<and>
         fst (deletePetReminder f k n sch) = False \<and>
         fst (snd (deletePetReminder f k n sch)) = n \<and>
         fst (snd (snd (deletePetReminder f k n sch))) = cancelPetReminder k sch"
  using updatePet_failure_result[OF assms(1-4), of d s] deletePet_failure_result[OF assms(1-4), of s]
    updateAppointment_failure_result[OF assms(5-8), of c a]
    deleteAppointment_failure_result[OF assms(5-8), of a]
    updatePetReminder_failure_result[OF assms(9-12), of u n sch]
    deletePetReminder_failure_result[OF assms(9-12), of n sch]
  by simp


text \<open>
  Renaming and deleting Rex, completing and deleting his checkup, moving and deleting
  his breakfast reminder, all against a failing Gateway: every one returns
  \<^verbatim>\<open>false\<close> and the three collections are as before; the failed delete of the
  reminder has cancelled its five triggers and left Tom's two.
\<close>

theorem remote_failure_keeps_local_state_witness:
  "fst (updatePet (online_env failing_gateway) ''7f3c'' (rename_to ''Max'') synced_pets) = False \<and>
   pets (fst (snd (updatePet (online_env failing_gateway) ''7f3c'' (rename_to ''Max'') synced_pets)))
     = [rex, tom] \<and>
   fst (deletePet (online_env failing_gateway) ''7f3c'' synced_pets) = False \<and>
   pets (fst (snd (deletePet (online_env failing_gateway) ''7f3c'' synced_pets))) = [rex, tom] \<and>
   fst (updateAppointment (online_env failing_gateway) ''a1'' complete synced_appointments) = False \<and>
   appointments (fst (snd (updateAppointment (online_env failing_gateway) ''a1'' complete
     synced_appointments))) = [checkup] \<and>
   fst (deleteAppointment (online_env failing_gateway) ''a1'' synced_appointments) = False \<and>
   appointments (fst (snd (deleteAppointment (online_env failing_gateway) ''a1''
     synced_appointments))) = [checkup] \<and>
   updatePetReminder (online_env failing_gateway) ''r1'' at_nine synced_reminders
     (notifications home) =
     (False, synced_reminders, notifications home, [DbUpdate ''pet_reminders'' ''r1'']) \<and>
   fst (deletePetReminder (online_env failing_gateway) ''r1'' synced_reminders
     (notifications home)) = False \<and>
   petReminders (fst (snd (deletePetReminder (online_env failing_gateway) ''r1'' synced_reminders
     (notifications home)))) = [breakfast, walk_time] \<and>
   map data_reminderId (scheduled (fst (snd (snd (deletePetReminder (online_env failing_gateway)
     ''r1'' synced_reminders (notifications home)))))) = [Some ''r2'', Some ''r2'']"
proof -
  have on: "supabase_configured (online_env failing_gateway :: pet env)"
    "current_user (online_env failing_gateway :: pet env)"
    "gateway_failed (db_answer (online_env failing_gateway :: pet env) 0)"
    by (simp_all add: online_env_def failing_gateway_def gateway_error_def gateway_failed_def)
  have on': "supabase_configured (online_env failing_gateway :: appointment env)"
    "current_user (online_env failing_gateway :: appointment env)"
    "gateway_failed (db_answer (online_env failing_gateway :: appointment env) 0)"
    by (simp_all add: online_env_def failing_gateway_def gateway_error_def gateway_failed_def)
  have on'': "supabase_configured (online_env failing_gateway :: pet_reminder env)"
    "current_user (online_env failing_gateway :: pet_reminder env)"
    "gateway_failed (db_answer (online_env failing_gateway :: pet_reminder env) 0)"
    by (simp_all add: online_env_def failing_gateway_def gateway_error_def gateway_failed_def)
  have r: "\<not> startsWith ''7f3c'' ''local_''" "\<not> startsWith ''a1'' ''local_''"
    "\<not> startsWith ''r1'' ''local_''"
    by (simp_all add: startsWith_def)
  note t = remote_failure_keeps_local_state[OF on(1) on(2) r(1) on(3) on'(1) on'(2) r(2) on'(3)
      on''(1) on''(2) r(3) on''(3),
      of "rename_to ''Max''" synced_pets complete synced_appointments at_nine synced_reminders
        "notifications home"]
  have p: "pets synced_pets = [rex, tom]" by (simp add: synced_pets_def)
  have q: "appointments synced_appointments = [checkup]" by (simp add: synced_appointments_def)
  have m: "petReminders synced_reminders = [breakfast, walk_time]"
    by (simp add: synced_reminders_def)
  have d: "distinct (map req_identifier (scheduled (notifications home)))"
    using home_notifications [THEN arg_cong, of "map fst"] by (simp add: comp_def)
  have c: "map data_reminderId (scheduled (cancelPetReminder ''r1'' (notifications home)))
             = [Some ''r2'', Some ''r2'']"
  proof -
    have "map (\<lambda>x. fst (snd x))
            (filter (\<lambda>x. fst (snd x) \<noteq> Some ''r1'')
               (map (\<lambda>n. (req_identifier n, data_reminderId n, data_petId n, request_trigger n))
                  (scheduled (notifications home))))
            = [Some ''r2'', Some ''r2'']"
      unfolding home_notifications by simp
    then show ?thesis
      unfolding cancelPetReminder_keeps_others[OF d] by (simp add: filter_map comp_def)
  qed
  have u: "snd (snd (snd (updatePetReminder (online_env failing_gateway) ''r1'' at_nine
             synced_reminders (notifications home)))) = [DbUpdate ''pet_reminders'' ''r1'']"
    by (simp add: updatePetReminder_def getCurrentUser_def online_env_def failing_gateway_def
        gateway_error_def synced_reminders_def breakfast_def startsWith_def Let_def)
  have w: "updatePetReminder (online_env failing_gateway) ''r1'' at_nine synced_reminders
     (notifications home) =
     (False, synced_reminders, notifications home, [DbUpdate ''pet_reminders'' ''r1''])"
    using t u by (simp add: prod_eq_iff)
  from t p q m c w show ?thesis by simp
qed

text \<open>
  The claim as written fails: the rename is not applied locally, Rex is not removed
  locally, and the pending flag stays off.
\<close>

theorem remote_failure_counterexample:
  "updatePet (online_env failing_gateway) ''7f3c'' (rename_to ''Max'') synced_pets =
     (False, synced_pets\<lparr>error := Some ''Failed to update pet''\<rparr>, [DbUpdate ''pets'' ''7f3c'']) \<and>
   deletePet (online_env failing_gateway) ''7f3c'' synced_pets =
     (False, synced_pets\<lparr>error := Some ''Failed to delete pet''\<rparr>, [DbRemove ''pets'' ''7f3c'']) \<and>
   p_name (hd (pets synced_pets)) = ''Rex'' \<and> pendingChanges synced_pets = False"
  by (simp add: updatePet_def deletePet_def getCurrentUser_def online_env_def
      failing_gateway_def gateway_error_def synced_pets_def rex_def startsWith_def Let_def)

text \<open>
  C8 at failing inputs. The store holds Rex and Tom and no record with id \<open>ghost\<close> or
  \<open>local_0\<close>. On a configured device with nobody signed in, \<open>updatePet\<close> on \<open>ghost\<close>
  reports success, on \<open>local_0\<close> it reports success and turns the pending flag on,
  and \<open>deletePet\<close> on \<open>ghost\<close> reports success. Signed in, \<open>deletePet\<close> on \<open>ghost\<close>
  sends the removal to the Gateway and reports success. \<open>updatePetReminder\<close>, which
  looks the id up first, reports failure and changes nothing.
\<close>

theorem unknown_id_reports_success:
  "getPetById synced_pets ''ghost'' = None \<and> getPetById synced_pets ''local_0'' = None \<and>
   updatePet signed_out_env ''ghost'' (rename_to ''Max'') synced_pets = (True, synced_pets, []) \<and>
   updatePet signed_out_env ''local_0'' (rename_to ''Max'') synced_pets =
     (True, synced_pets\<lparr>pendingChanges := True\<rparr>, []) \<and>
   deletePet signed_out_env ''ghost'' synced_pets = (True, synced_pets, []) \<and>
   deletePet (online_env accepting_gateway) ''ghost'' synced_pets =
     (True, synced_pets, [DbRemove ''pets'' ''ghost'']) \<and>
   updatePetReminder signed_out_env ''ghost'' (enabled_only False) synced_reminders no_notifications =
     (False, synced_reminders, no_notifications, [])"
  by (simp add: getPetById_def updatePet_def deletePet_def updatePetReminder_def
      getCurrentUser_def signed_out_env_def online_env_def accepting_gateway_def gateway_done_def
      synced_pets_def synced_reminders_def rex_def tom_def breakfast_def walk_time_def
      startsWith_def Let_def)

text \<open>
  \<open>updatePetReminder\<close> refuses every unknown id, whatever the connectivity. On a
  device that is not configured every update and remove is refused, known id or not.
\<close>

lemma updatePetReminder_unknown_id:
  "find (\<lambda>r. r_id r = i) (petReminders s) = None \<Longrightarrow>
   updatePetReminder e i u s sch = (False, s, sch, [])"
  by (simp add: updatePetReminder_def)

lemma update_remove_unconfigured:
  assumes "\<not> supabase_configured e"
  shows "fst (updatePet e i d s) = False \<and> pets (fst (snd (updatePet e i d s))) = pets s \<and>
         pendingChanges (fst (snd (updatePet e i d s))) = pendingChanges s"
    and "fst (deletePet e i s) = False \<and> pets (fst (snd (deletePet e i s))) = pets s"
  using assms by (simp_all add: updatePet_def deletePet_def getCurrentUser_def Let_def)


subsection \<open>Editing a reminder\<close>

lemma find_Some_id: "find (\<lambda>r. r_id r = i) rs = Some old \<Longrightarrow> r_id old = i"
  by (induction rs) (auto split: if_splits)

lemma updatePetReminder_success_commit:
  assumes "find (\<lambda>r. r_id r = i) (petReminders s) = Some old"
      and "fst (updatePetReminder e i u s sch)"
  shows "\<exists>calls. updatePetReminder e i u s sch
                  = updatePetReminder_commit e i (reminder_merge old u) s sch calls"
  using assms
  by (auto simp: updatePetReminder_def Let_def split: outcome.splits option.splits if_splits)

lemma updatePetReminder_success_scheduler:
  assumes "find (\<lambda>r. r_id r = i) (petReminders s) = Some old"
      and "pushEnabled (settings s)" and "reminders (settings s)"
      and "fst (updatePetReminder e i u s sch)"
  shows "(r_enabled (reminder_merge old u) \<longrightarrow>
            (\<exists>ids. fst (schedulePetReminder (reminder_merge old u) sch) = Resolved ids) \<and>
            fst (snd (snd (updatePetReminder e i u s sch)))
              = snd (schedulePetReminder (reminder_merge old u) sch)) \<and>
         (\<not> r_enabled (reminder_merge old u) \<longrightarrow>
            fst (snd (snd (updatePetReminder e i u s sch))) = cancelPetReminder i sch)"
proof -
  let ?upd = "reminder_merge old u"
  from updatePetReminder_success_commit[OF assms(1) assms(4)] obtain calls where
    c: "updatePetReminder e i u s sch = updatePetReminder_commit e i ?upd s sch calls" by blast
  have ok: "fst (updatePetReminder_commit e i ?upd s sch calls)" using assms(4) c by simp
  show ?thesis
  proof (cases "r_enabled ?upd")
    case True
    obtain res sch' where r: "schedulePetReminder ?upd sch = (res, sch')"
      by (cases "schedulePetReminder ?upd sch")
    obtain ids where "res = Resolved ids"
      using ok True r assms(2,3) by (cases res) (simp_all add: updatePetReminder_commit_def Let_def)
    then show ?thesis
      using True r c assms(2,3) by (simp add: updatePetReminder_commit_def Let_def)
  next
    case False
    then show ?thesis
      using c assms(2,3) by (simp add: updatePetReminder_commit_def Let_def)
  qed
qed

text \<open>
  C2, as the code has it. For a reminder of the store, an update that succeeds while
  the settings gate is on (push notifications and pet-care reminders both enabled)
  leaves, for that reminder's id, exactly one trigger per weekday of the new
  \<open>daysOfWeek\<close> with the new hour and minute when the updated reminder is enabled, and
  none otherwise; every trigger left for the id carries an identifier handed out
  during this update. Cancelling when nothing is registered changes nothing.
\<close>

theorem updatePetReminder_reschedules:
  assumes "find (\<lambda>r. r_id r = i) (petReminders s) = Some old"
      and "pushEnabled (settings s)" and "reminders (settings s)"
      and "fst (updatePetReminder e i u s sch)"
  shows "(let upd = reminder_merge old u;
              sch' = fst (snd (snd (updatePetReminder e i u s sch)));
              mine = filter (\<lambda>n. data_reminderId n = Some i) (scheduled sch')
          in map request_trigger mine =
               (if r_enabled upd
                then map (\<lambda>d. WEEKLY d (hour (r_time upd)) (minute (r_time upd))) (r_daysOfWeek upd)
                else []) \<and>
             (\<forall>n \<in> set mine. next_identifier sch \<le> req_identifier n)) \<and>
         (filter (\<lambda>n. data_reminderId n = Some i) (scheduled sch) = [] \<longrightarrow>
            cancelPetReminder i sch = sch)"
proof -
  let ?upd = "reminder_merge old u"
  have i: "r_id ?upd = i"
    using find_Some_id[OF assms(1)] by (simp add: reminder_merge_def)
  note s = updatePetReminder_success_scheduler[OF assms]
  have a: "(let upd = reminder_merge old u;
              sch' = fst (snd (snd (updatePetReminder e i u s sch)));
              mine = filter (\<lambda>n. data_reminderId n = Some i) (scheduled sch')
          in map request_trigger mine =
               (if r_enabled upd
                then map (\<lambda>d. WEEKLY d (hour (r_time upd)) (minute (r_time upd))) (r_daysOfWeek upd)
                else []) \<and>
             (\<forall>n \<in> set mine. next_identifier sch \<le> req_identifier n))"
  proof (cases "r_enabled ?upd")
    case True
    with s obtain ids where ids: "fst (schedulePetReminder ?upd sch) = Resolved ids"
      and e: "fst (snd (snd (updatePetReminder e i u s sch))) = snd (schedulePetReminder ?upd sch)"
      by blast
    show ?thesis
      using schedulePetReminder_triggers[OF ids] True e i by (simp add: Let_def)
  next
    case False
    with s have e: "fst (snd (snd (updatePetReminder e i u s sch))) = cancelPetReminder i sch"
      by blast
    show ?thesis
      using cancelPetReminder_removes_all[of i sch] False e
      by (auto simp: Let_def filter_empty_conv)
  qed
  have b: "filter (\<lambda>n. data_reminderId n = Some i) (scheduled sch) = [] \<longrightarrow>
            cancelPetReminder i sch = sch"
    using cancelPetReminder_nothing_registered[of i sch] by blast
  from a b show ?thesis by blast
qed

text \<open>Rex's weekday breakfast moved from 8:00 to 9:00 with the gate on, in full.\<close>

lemma breakfast_at_nine:
  "map (\<lambda>n. (req_identifier n, data_reminderId n, request_trigger n))
     (scheduled (fst (snd (snd (updatePetReminder (online_env accepting_gateway) ''r1'' at_nine
        synced_reminders (notifications home)))))) =
   [(5, Some ''r2'', WEEKLY 3 18 30), (6, Some ''r2'', WEEKLY 6 18 30),
    (7, Some ''r1'', WEEKLY 1 9 0), (8, Some ''r1'', WEEKLY 2 9 0), (9, Some ''r1'', WEEKLY 3 9 0),
    (10, Some ''r1'', WEEKLY 4 9 0), (11, Some ''r1'', WEEKLY 5 9 0)]"
  by (simp add: updatePetReminder_def updatePetReminder_commit_def getCurrentUser_def
      online_env_def accepting_gateway_def gateway_done_def
      startsWith_def Let_def home_def scheduleAllReminders_def synced_reminders_def
      no_reminders_def DEFAULT_SETTINGS_def breakfast_def walk_time_def schedulePetReminder_def
      cancelPetReminder_def no_notifications_def scheduleNotificationAsync_def
      reminder_request_def cancelScheduledNotificationAsync_def at_nine_def reminder_merge_def
      spread_def trigger_accepted_def)

text \<open>
  That edit: five triggers for the breakfast afterwards, all at 9:00 and none at 8:00;
  Tom's two triggers are as before.
\<close>

theorem updatePetReminder_reschedules_witness:
  "find (\<lambda>r. r_id r = ''r1'') (petReminders synced_reminders) = Some breakfast \<and>
   pushEnabled (settings synced_reminders) \<and> reminders (settings synced_reminders) \<and>
   fst (updatePetReminder (online_env accepting_gateway) ''r1'' at_nine synced_reminders
          (notifications home)) \<and>
   map request_trigger
     (filter (\<lambda>n. data_reminderId n = Some ''r1'')
        (scheduled (fst (snd (snd (updatePetReminder (online_env accepting_gateway) ''r1'' at_nine
           synced_reminders (notifications home)))))))
     = [WEEKLY 1 9 0, WEEKLY 2 9 0, WEEKLY 3 9 0, WEEKLY 4 9 0, WEEKLY 5 9 0] \<and>
   map request_trigger
     (filter (\<lambda>n. data_reminderId n = Some ''r2'')
        (scheduled (fst (snd (snd (updatePetReminder (online_env accepting_gateway) ''r1'' at_nine
           synced_reminders (notifications home)))))))
     = [WEEKLY 3 18 30, WEEKLY 6 18 30]"
proof -
  have f: "find (\<lambda>r. r_id r = ''r1'') (petReminders synced_reminders) = Some breakfast"
    by (simp add: synced_reminders_def breakfast_def)
  have g: "pushEnabled (settings synced_reminders)" "reminders (settings synced_reminders)"
    by (simp_all add: synced_reminders_def no_reminders_def DEFAULT_SETTINGS_def)
  have m: "reminder_merge breakfast at_nine = breakfast\<lparr>r_time := \<lparr>hour = 9, minute = 0\<rparr>\<rparr>"
    by (simp add: reminder_merge_def at_nine_def spread_def)
  have acc: "all_accepted (breakfast\<lparr>r_time := \<lparr>hour = 9, minute = 0\<rparr>\<rparr>)"
    by (simp add: all_accepted_def trigger_accepted_def breakfast_def)
  obtain ids sch' where sp: "schedulePetReminder (breakfast\<lparr>r_time := \<lparr>hour = 9, minute = 0\<rparr>\<rparr>)
                               (notifications home) = (Resolved ids, sch')"
    using schedulePetReminder_accepts[OF acc, of "notifications home"]
    by (cases "schedulePetReminder (breakfast\<lparr>r_time := \<lparr>hour = 9, minute = 0\<rparr>\<rparr>)
                 (notifications home)") auto
  have en: "r_enabled (breakfast\<lparr>r_time := \<lparr>hour = 9, minute = 0\<rparr>\<rparr>)"
    by (simp add: breakfast_def)
  have ok: "fst (updatePetReminder (online_env accepting_gateway) ''r1'' at_nine synced_reminders
          (notifications home))"
    using f g sp en
    by (simp add: updatePetReminder_def updatePetReminder_commit_def getCurrentUser_def
        online_env_def accepting_gateway_def gateway_done_def startsWith_def Let_def m)
  from updatePetReminder_reschedules[OF f g ok]
  have "map request_trigger
     (filter (\<lambda>n. data_reminderId n = Some ''r1'')
        (scheduled (fst (snd (snd (updatePetReminder (online_env accepting_gateway) ''r1'' at_nine
           synced_reminders (notifications home)))))))
     = [WEEKLY 1 9 0, WEEKLY 2 9 0, WEEKLY 3 9 0, WEEKLY 4 9 0, WEEKLY 5 9 0]"
    by (simp add: Let_def m) (simp add: breakfast_def)
  moreover have "map request_trigger
     (filter (\<lambda>n. data_reminderId n = Some ''r2'')
        (scheduled (fst (snd (snd (updatePetReminder (online_env accepting_gateway) ''r1'' at_nine
           synced_reminders (notifications home)))))))
     = [WEEKLY 3 18 30, WEEKLY 6 18 30]"
  proof -
    have "map (\<lambda>x. snd (snd x))
            (filter (\<lambda>x. fst (snd x) = Some ''r2'')
               (map (\<lambda>n. (req_identifier n, data_reminderId n, request_trigger n))
                  (scheduled (fst (snd (snd (updatePetReminder (online_env accepting_gateway)
                     ''r1'' at_nine synced_reminders (notifications home))))))))
            = [WEEKLY 3 18 30, WEEKLY 6 18 30]"
      unfolding breakfast_at_nine by simp
    then show ?thesis by (simp add: filter_map comp_def)
  qed
  ultimately show ?thesis using f g ok by blast
qed

text \<open>
  The claim as written fails with the gate off. Signed in on a configured device,
  from the application above, switching pet-care reminders off leaves the scheduler
  alone; moving the breakfast to 9:00 then succeeds and stores 9:00, and the five
  triggers registered at 8:00 are still there.
\<close>

theorem updatePetReminder_gate_off_counterexample:
  "updateSettings (online_env accepting_gateway) (set_reminders False) synced_reminders
     (notifications home) =
     (Resolved (), quiet_reminders, notifications home, [DbUpsert ''user_settings'']) \<and>
   fst (updatePetReminder (online_env accepting_gateway) ''r1'' at_nine quiet_reminders
     (notifications home)) \<and>
   map r_time (petReminders
     (fst (snd (updatePetReminder (online_env accepting_gateway) ''r1'' at_nine quiet_reminders
        (notifications home)))))
     = [\<lparr>hour = 9, minute = 0\<rparr>, \<lparr>hour = 18, minute = 30\<rparr>] \<and>
   fst (snd (snd (updatePetReminder (online_env accepting_gateway) ''r1'' at_nine quiet_reminders
     (notifications home))))
     = notifications home \<and>
   map data_reminderId (scheduled (notifications home)) =
     [Some ''r1'', Some ''r1'', Some ''r1'', Some ''r1'', Some ''r1'', Some ''r2'', Some ''r2''] \<and>
   map request_trigger (scheduled (notifications home)) =
     [WEEKLY 1 8 0, WEEKLY 2 8 0, WEEKLY 3 8 0, WEEKLY 4 8 0, WEEKLY 5 8 0,
      WEEKLY 3 18 30, WEEKLY 6 18 30]"
proof -
  have a: "updateSettings (online_env accepting_gateway) (set_reminders False) synced_reminders
     (notifications home) =
     (Resolved (), quiet_reminders, notifications home, [DbUpsert ''user_settings''])"
    by (simp add: updateSettings_def updateSettings_push_def getCurrentUser_def online_env_def
        accepting_gateway_def gateway_done_def set_reminders_def quiet_reminders_def
        synced_reminders_def no_reminders_def DEFAULT_SETTINGS_def settings_merge_def spread_def
        Let_def)
  have b: "updatePetReminder (online_env accepting_gateway) ''r1'' at_nine quiet_reminders
     (notifications home) =
     (True,
      quiet_reminders\<lparr>petReminders := [breakfast\<lparr>r_time := \<lparr>hour = 9, minute = 0\<rparr>\<rparr>, walk_time]\<rparr>,
      notifications home, [DbUpdate ''pet_reminders'' ''r1''])"
    by (simp add: updatePetReminder_def updatePetReminder_commit_def getCurrentUser_def
        online_env_def accepting_gateway_def gateway_done_def quiet_reminders_def
        synced_reminders_def no_reminders_def DEFAULT_SETTINGS_def breakfast_def walk_time_def
        at_nine_def reminder_merge_def spread_def startsWith_def Let_def)
  have c: "map data_reminderId (scheduled (notifications home)) =
     [Some ''r1'', Some ''r1'', Some ''r1'', Some ''r1'', Some ''r1'', Some ''r2'', Some ''r2'']"
    using home_notifications [THEN arg_cong, of "map (\<lambda>x. fst (snd x))"] by (simp add: comp_def)
  have d: "map request_trigger (scheduled (notifications home)) =
     [WEEKLY 1 8 0, WEEKLY 2 8 0, WEEKLY 3 8 0, WEEKLY 4 8 0, WEEKLY 5 8 0,
      WEEKLY 3 18 30, WEEKLY 6 18 30]"
    using home_notifications [THEN arg_cong, of "map (\<lambda>x. snd (snd (snd x)))"]
    by (simp add: comp_def)
  have e: "map r_time [breakfast\<lparr>r_time := \<lparr>hour = 9, minute = 0\<rparr>\<rparr>, walk_time]
             = [\<lparr>hour = 9, minute = 0\<rparr>, \<lparr>hour = 18, minute = 30\<rparr>]"
    by (simp add: walk_time_def)
  from a b c d e show ?thesis by simp
qed

subsection \<open>The settings gate\<close>

text \<open>With the gate off, creating or editing a reminder registers nothing.\<close>

lemma gate_off_registers_nothing:
  assumes "\<not> (pushEnabled (settings s) \<and> reminders (settings s))"
  shows "scheduled (fst (snd (snd (addPetReminder e d s sch)))) = scheduled sch"
    and "scheduled (fst (snd (snd (updatePetReminder e i u s sch)))) = scheduled sch"
    and "scheduleAllReminders s sch = (Resolved (), sch)"
  using assms
  by (auto simp: addPetReminder_def addPetReminder_offline_def addPetReminder_stored_def
      updatePetReminder_def updatePetReminder_commit_def scheduleAllReminders_def Let_def
      split: outcome.splits option.splits)

text \<open>An update of the settings that leaves \<open>pushEnabled\<close> out leaves the scheduler alone.\<close>

lemma updateSettings_push_unchanged:
  "sp_pushEnabled newSettings = None \<Longrightarrow>
   fst (snd (snd (updateSettings e newSettings s sch))) = sch"
  by (simp add: updateSettings_def updateSettings_push_def settings_merge_def spread_def Let_def
      split: outcome.splits)

text \<open>
  C6 at a failing input. On a configured device push notifications are on, pet-care
  reminders are off, two enabled reminders are stored, all their triggers ones the
  scheduler accepts, and nothing is scheduled. Switching pet-care reminders on,
  signed in or with nobody signed in, stores the setting, so that the gate is now on,
  and registers no trigger.
\<close>

theorem reminders_switch_registers_nothing:
  "pushEnabled (settings quiet_reminders) \<and> reminders (settings quiet_reminders) = False \<and>
   updateSettings (online_env accepting_gateway) (set_reminders True) quiet_reminders
     no_notifications =
     (Resolved (), synced_reminders, no_notifications, [DbUpsert ''user_settings'']) \<and>
   updateSettings signed_out_env (set_reminders True) quiet_reminders no_notifications =
     (Resolved (), synced_reminders, no_notifications, []) \<and>
   pushEnabled (settings synced_reminders) \<and> reminders (settings synced_reminders) \<and>
   map r_enabled (petReminders synced_reminders) = [True, True] \<and>
   all_accepted breakfast \<and> all_accepted walk_time"
  by (simp add: updateSettings_def updateSettings_push_def getCurrentUser_def online_env_def
      signed_out_env_def accepting_gateway_def gateway_done_def set_reminders_def
      quiet_reminders_def synced_reminders_def no_reminders_def DEFAULT_SETTINGS_def
      settings_merge_def spread_def breakfast_def walk_time_def all_accepted_def
      trigger_accepted_def Let_def)

text \<open>
  On that same state the full live set is the seven triggers of the two reminders:
  \<open>scheduleAllReminders\<close>, which switching push notifications (rather than pet-care
  reminders) on runs, registers it.
\<close>

lemma push_switch_registers_all:
  "fst (scheduleAllReminders synced_reminders no_notifications) = Resolved () \<and>
   map request_trigger (scheduled (snd (scheduleAllReminders synced_reminders no_notifications))) =
     [WEEKLY 1 8 0, WEEKLY 2 8 0, WEEKLY 3 8 0, WEEKLY 4 8 0, WEEKLY 5 8 0,
      WEEKLY 3 18 30, WEEKLY 6 18 30]"
  by (simp add: scheduleAllReminders_def synced_reminders_def no_reminders_def
      DEFAULT_SETTINGS_def breakfast_def walk_time_def schedulePetReminder_def
      cancelPetReminder_def no_notifications_def scheduleNotificationAsync_def
      reminder_request_def cancelScheduledNotificationAsync_def trigger_accepted_def)


subsection \<open>Reconciliation\<close>

lemma sync_pets_calls:
  "\<exists>m. snd (snd (sync_pets e k ls cur)) = map (DbCreate ''pets'') (take m ls)"
proof (induction ls arbitrary: k cur)
  case Nil
  then show ?case by simp
next
  case (Cons pet rest)
  show ?case
  proof (cases "db_answer e k")
    case (Rejected m)
    have "[DbCreate ''pets'' pet] = map (DbCreate ''pets'') (take (Suc 0) (pet # rest))" by simp
    then show ?thesis using Rejected by (simp del: take_Suc_Cons) blast
  next
    case (Resolved r)
    let ?cur' = "case (db_error r, db_data r) of
                   (None, Some serverPet) \<Rightarrow> map (\<lambda>p. if p_id p = p_id pet then serverPet else p) cur
                 | _ \<Rightarrow> cur"
    from Cons.IH[of "Suc k" ?cur'] obtain m where
      m: "snd (snd (sync_pets e (Suc k) rest ?cur')) = map (DbCreate ''pets'') (take m rest)"
      by blast
    have "snd (snd (sync_pets e k (pet # rest) cur))
            = map (DbCreate ''pets'') (take (Suc m) (pet # rest))"
      using Resolved m by (simp add: Let_def case_prod_beta)
    then show ?thesis by blast
  qed
qed

lemma sync_pets_completes:
  assumes "\<forall>k. \<exists>r. db_answer e k = Resolved r"
  shows "fst (sync_pets e k ls cur) \<and> snd (snd (sync_pets e k ls cur)) = map (DbCreate ''pets'') ls"
proof (induction ls arbitrary: k cur)
  case Nil
  then show ?case by simp
next
  case (Cons pet rest)
  from assms obtain r where r: "db_answer e k = Resolved r" by blast
  show ?case
    using r Cons.IH by (simp add: Let_def case_prod_beta)
qed

lemma sync_pets_all_failed:
  assumes "\<forall>k. gateway_failed (db_answer e k)"
  shows "fst (snd (sync_pets e k ls cur)) = cur"
proof (induction ls arbitrary: k)
  case Nil
  then show ?case by simp
next
  case (Cons pet rest)
  show ?case
  proof (cases "db_answer e k")
    case (Rejected m)
    then show ?thesis by simp
  next
    case (Resolved r)
    have "db_error r \<noteq> None"
      using assms[rule_format, of k] Resolved by (simp add: gateway_failed_def)
    then show ?thesis
      using Resolved Cons.IH[of "Suc k"]
      by (auto simp: Let_def case_prod_beta)
  qed
qed

lemma sync_reminders_calls:
  "\<exists>m. snd (snd (sync_reminders e k ls cur)) = map (DbCreate ''pet_reminders'') (take m ls)"
proof (induction ls arbitrary: k cur)
  case Nil
  then show ?case by simp
next
  case (Cons reminder rest)
  show ?case
  proof (cases "db_answer e k")
    case (Rejected m)
    have "[DbCreate ''pet_reminders'' reminder]
            = map (DbCreate ''pet_reminders'') (take (Suc 0) (reminder # rest))" by simp
    then show ?thesis using Rejected by (simp del: take_Suc_Cons) blast
  next
    case (Resolved r)
    let ?cur' = "case (db_error r, db_data r) of
                   (None, Some serverReminder) \<Rightarrow>
                     map (\<lambda>x. if r_id x = r_id reminder then serverReminder else x) cur
                 | _ \<Rightarrow> cur"
    from Cons.IH[of "Suc k" ?cur'] obtain m where
      m: "snd (snd (sync_reminders e (Suc k) rest ?cur'))
            = map (DbCreate ''pet_reminders'') (take m rest)"
      by blast
    have "snd (snd (sync_reminders e k (reminder # rest) cur))
            = map (DbCreate ''pet_reminders'') (take (Suc m) (reminder # rest))"
      using Resolved m by (simp add: Let_def case_prod_beta)
    then show ?thesis by blast
  qed
qed

lemma sync_reminders_completes:
  assumes "\<forall>k. \<exists>r. db_answer e k = Resolved r"
  shows "fst (sync_reminders e k ls cur)"
proof (induction ls arbitrary: k cur)
  case Nil
  then show ?case by simp
next
  case (Cons reminder rest)
  from assms obtain r where r: "db_answer e k = Resolved r" by blast
  show ?case
    using r Cons.IH by (simp add: Let_def case_prod_beta)
qed

lemma petStore_sync_not_pending:
  "\<not> pendingChanges s \<Longrightarrow> petStore_syncToServer e s = (s, [])"
  by (simp add: petStore_syncToServer_def)

lemma notificationStore_sync_not_pending:
  "\<not> n_pendingChanges s \<Longrightarrow> notificationStore_syncToServer e s = (s, [])"
  by (simp add: notificationStore_syncToServer_def)

lemma petStore_sync_completed:
  assumes "supabase_configured e" "current_user e" "\<forall>k. \<exists>r. db_answer e k = Resolved r"
  shows "\<not> pendingChanges (fst (petStore_syncToServer e s))"
  using assms(1,2) sync_pets_completes[OF assms(3)]
  by (simp add: petStore_syncToServer_def getCurrentUser_def Let_def case_prod_beta)

lemma notificationStore_sync_completed:
  assumes "supabase_configured e" "current_user e" "\<forall>k. \<exists>r. db_answer e k = Resolved r"
  shows "\<not> n_pendingChanges (fst (notificationStore_syncToServer e s))"
proof -
  from assms(3) obtain u where u: "db_answer e 0 = Resolved u" by blast
  show ?thesis
    using assms(1,2) u sync_reminders_completes[OF assms(3)]
    by (simp add: notificationStore_syncToServer_def getCurrentUser_def Let_def case_prod_beta)
qed

lemma petStore_sync_creates:
  "\<exists>m. snd (petStore_syncToServer e s)
         = map (DbCreate ''pets'') (take m (filter (\<lambda>p. startsWith (p_id p) ''local_'') (pets s)))"
proof -
  let ?ls = "filter (\<lambda>p. startsWith (p_id p) ''local_'') (pets s)"
  from sync_pets_calls[of e 0 ?ls "pets s"] obtain m where
    m: "snd (snd (sync_pets e 0 ?ls (pets s))) = map (DbCreate ''pets'') (take m ?ls)" by blast
  have z: "[] = map (DbCreate ''pets'') (take 0 ?ls)" by simp
  have "snd (petStore_syncToServer e s) = [] \<or>
        snd (petStore_syncToServer e s) = snd (snd (sync_pets e 0 ?ls (pets s)))"
    by (cases "getCurrentUser e")
      (simp_all add: petStore_syncToServer_def Let_def case_prod_beta)
  then show ?thesis using m z by metis
qed

lemma notificationStore_sync_creates:
  "snd (notificationStore_syncToServer e s) = [] \<or>
   (\<exists>m. snd (notificationStore_syncToServer e s)
          = DbUpsert ''user_settings''
            # map (DbCreate ''pet_reminders'')
                (take m (filter (\<lambda>r. startsWith (r_id r) ''local_'') (petReminders s))))"
proof -
  let ?ls = "filter (\<lambda>r. startsWith (r_id r) ''local_'') (petReminders s)"
  from sync_reminders_calls[of e 1 ?ls "petReminders s"] obtain m where
    m: "snd (snd (sync_reminders e 1 ?ls (petReminders s)))
          = map (DbCreate ''pet_reminders'') (take m ?ls)" by blast
  have z: "[DbUpsert ''user_settings'']
             = DbUpsert ''user_settings'' # map (DbCreate ''pet_reminders'') (take 0 ?ls)" by simp
  have "snd (notificationStore_syncToServer e s) = [] \<or>
        snd (notificationStore_syncToServer e s) = [DbUpsert ''user_settings''] \<or>
        snd (notificationStore_syncToServer e s)
          = DbUpsert ''user_settings'' # snd (snd (sync_reminders e 1 ?ls (petReminders s)))"
    by (cases "getCurrentUser e"; cases "db_answer e 0")
      (simp_all add: notificationStore_syncToServer_def Let_def case_prod_beta)
  then show ?thesis using m z by metis
qed

text \<open>
  C4. A pass that completes (signed in, configured, no Gateway call rejecting) leaves
  the pending flag off, and a second pass on the state it left, whatever the Gateway
  would answer, issues no Gateway call and changes nothing. The creates of any pass
  carry, in order, the first so many of the records that entered the pass under an id
  starting with \<open>local_\<close>, and nothing else; so a record whose id was swapped for the
  backend's is not replayed. This is so for the pet store and for the notification
  store (whose pass starts with the settings upsert).
\<close>

theorem syncToServer_idempotent:
  assumes "supabase_configured e1" and "current_user e1"
      and "\<forall>k. \<exists>r. db_answer e1 k = Resolved r"
      and "supabase_configured f1" and "current_user f1"
      and "\<forall>k. \<exists>r. db_answer f1 k = Resolved r"
  shows "(let s1 = fst (petStore_syncToServer e1 s)
          in \<not> pendingChanges s1 \<and> petStore_syncToServer e2 s1 = (s1, [])) \<and>
         (let n1 = fst (notificationStore_syncToServer f1 n)
          in \<not> n_pendingChanges n1 \<and> notificationStore_syncToServer f2 n1 = (n1, [])) \<and>
         (\<exists>m. snd (petStore_syncToServer e3 s3)
                = map (DbCreate ''pets'')
                    (take m (filter (\<lambda>p. startsWith (p_id p) ''local_'') (pets s3)))) \<and>
         (snd (notificationStore_syncToServer f3 n3) = [] \<or>
          (\<exists>m. snd (notificationStore_syncToServer f3 n3)
                 = DbUpsert ''user_settings''
                   # map (DbCreate ''pet_reminders'')
                       (take m (filter (\<lambda>r. startsWith (r_id r) ''local_'') (petReminders n3)))))"
proof -
  have a: "\<not> pendingChanges (fst (petStore_syncToServer e1 s))"
    by (rule petStore_sync_completed[OF assms(1-3)])
  have b: "\<not> n_pendingChanges (fst (notificationStore_syncToServer f1 n))"
    by (rule notificationStore_sync_completed[OF assms(4-6)])
  have c: "(let s1 = fst (petStore_syncToServer e1 s)
          in \<not> pendingChanges s1 \<and> petStore_syncToServer e2 s1 = (s1, []))"
    using a petStore_sync_not_pending[OF a, of e2] by (simp add: Let_def)
  have d: "(let n1 = fst (notificationStore_syncToServer f1 n)
          in \<not> n_pendingChanges n1 \<and> notificationStore_syncToServer f2 n1 = (n1, []))"
    using b notificationStore_sync_not_pending[OF b, of f2] by (simp add: Let_def)
  from c d petStore_sync_creates[of e3 s3] notificationStore_sync_creates[of f3 n3]
  show ?thesis by blast
qed

lemma pending_pets_pass:
  "petStore_syncToServer (online_env assigning_gateway) pending_pets =
     (pending_pets\<lparr>pets := [milo_server, luna_server, rex], pendingChanges := False,
        lastSyncedAt := Some ''2023-11-14T22:13:20.000Z''\<rparr>,
      [DbCreate ''pets'' milo_local, DbCreate ''pets'' luna_local])"
  by (simp add: petStore_syncToServer_def getCurrentUser_def online_env_def
      assigning_gateway_def gateway_ok_def
      pending_pets_def milo_server_def luna_server_def milo_local_def luna_local_def rex_def
      tom_def startsWith_def Let_def)

lemma pending_reminders_pass:
  "notificationStore_syncToServer (online_env reminder_gateway) pending_reminders =
     (pending_reminders\<lparr>petReminders := [breakfast], n_pendingChanges := False,
        n_lastSyncedAt := Some ''2023-11-14T22:13:20.000Z''\<rparr>,
      [DbUpsert ''user_settings'', DbCreate ''pet_reminders'' breakfast_local])"
  by (simp add: notificationStore_syncToServer_def getCurrentUser_def online_env_def
      reminder_gateway_def
      gateway_ok_def gateway_done_def pending_reminders_def breakfast_local_def breakfast_def
      startsWith_def Let_def)

text \<open>
  Milo and Luna, created offline, are reconciled in one pass of two creates, none of
  them for Rex; the breakfast reminder in one pass of an upsert and a create. The
  second passes issue nothing.
\<close>

theorem syncToServer_idempotent_witness:
  "snd (petStore_syncToServer (online_env assigning_gateway) pending_pets)
     = [DbCreate ''pets'' milo_local, DbCreate ''pets'' luna_local] \<and>
   map p_id (pets (fst (petStore_syncToServer (online_env assigning_gateway) pending_pets)))
     = [''c4d2'', ''e815'', ''7f3c''] \<and>
   snd (petStore_syncToServer (online_env assigning_gateway)
          (fst (petStore_syncToServer (online_env assigning_gateway) pending_pets))) = [] \<and>
   snd (notificationStore_syncToServer (online_env reminder_gateway) pending_reminders)
     = [DbUpsert ''user_settings'', DbCreate ''pet_reminders'' breakfast_local] \<and>
   snd (notificationStore_syncToServer (online_env reminder_gateway)
          (fst (notificationStore_syncToServer (online_env reminder_gateway) pending_reminders)))
     = []"
proof -
  have e: "supabase_configured (online_env assigning_gateway)"
    "current_user (online_env assigning_gateway)"
    "\<forall>k. \<exists>r. db_answer (online_env assigning_gateway) k = Resolved r"
    by (simp_all add: online_env_def assigning_gateway_def gateway_ok_def)
  have f: "supabase_configured (online_env reminder_gateway)"
    "current_user (online_env reminder_gateway)"
    "\<forall>k. \<exists>r. db_answer (online_env reminder_gateway) k = Resolved r"
    by (simp_all add: online_env_def reminder_gateway_def gateway_ok_def gateway_done_def)
  note t = syncToServer_idempotent[OF e f, of pending_pets "online_env assigning_gateway"
      pending_reminders "online_env reminder_gateway"]
  have i: "map p_id [milo_server, luna_server, rex] = [''c4d2'', ''e815'', ''7f3c'']"
    by (simp add: milo_server_def luna_server_def rex_def)
  from t have
    "snd (petStore_syncToServer (online_env assigning_gateway)
          (fst (petStore_syncToServer (online_env assigning_gateway) pending_pets))) = []"
    "snd (notificationStore_syncToServer (online_env reminder_gateway)
          (fst (notificationStore_syncToServer (online_env reminder_gateway) pending_reminders)))
     = []"
    by (simp_all add: Let_def)
  then show ?thesis using i by (simp add: pending_pets_pass pending_reminders_pass)
qed

text \<open>
  C7, what the code does. A pass made signed in and configured, in which no Gateway
  call rejects, issues one create per local-only pet whether or not earlier creates
  failed, then sets \<open>lastSyncedAt\<close> and turns the pending flag off. When every
  create failed the pets are as before, all still under their local ids, and yet the
  next pass, whatever the Gateway would answer, issues no call: nothing is retried.
\<close>

theorem sync_failure_clears_pending:
  assumes "pendingChanges s" and "current_user e" and "supabase_configured e"
      and "\<forall>k. \<exists>r. db_answer e k = Resolved r"
  shows "(let s1 = fst (petStore_syncToServer e s); cs = snd (petStore_syncToServer e s)
          in cs = map (DbCreate ''pets'') (filter (\<lambda>p. startsWith (p_id p) ''local_'') (pets s)) \<and>
             length cs = length (filter (\<lambda>p. startsWith (p_id p) ''local_'') (pets s)) \<and>
             lastSyncedAt s1 = Some (iso_now e) \<and> \<not> pendingChanges s1 \<and>
             ((\<forall>k. gateway_failed (db_answer e k)) \<longrightarrow> pets s1 = pets s) \<and>
             petStore_syncToServer e2 s1 = (s1, []))"
proof -
  let ?ls = "filter (\<lambda>p. startsWith (p_id p) ''local_'') (pets s)"
  let ?r = "sync_pets e 0 ?ls (pets s)"
  have ok: "fst ?r" and cs: "snd (snd ?r) = map (DbCreate ''pets'') ?ls"
    using sync_pets_completes[OF assms(4), of 0 ?ls "pets s"] by blast+
  have res: "petStore_syncToServer e s =
               (s\<lparr>loading := True, pets := fst (snd ?r), loading := False,
                  pendingChanges := False, lastSyncedAt := Some (iso_now e)\<rparr>, snd (snd ?r))"
    using assms(1-3) ok
    by (simp add: petStore_syncToServer_def getCurrentUser_def Let_def case_prod_beta)
  have np: "\<not> pendingChanges (fst (petStore_syncToServer e s))" by (simp add: res)
  have all: "(\<forall>k. gateway_failed (db_answer e k)) \<longrightarrow> pets (fst (petStore_syncToServer e s)) = pets s"
    using sync_pets_all_failed[of e 0 ?ls "pets s"] by (simp add: res)
  show ?thesis
    using cs all petStore_sync_not_pending[OF np, of e2] by (simp add: Let_def res)
qed

text \<open>
  Milo's create fails and Luna's succeeds: both creates are issued, Luna gets her
  backend id, Milo keeps his local id, the pending flag is off, and the next pass
  against an accepting Gateway issues nothing. With every create failing both keep
  their local ids and the next pass still issues nothing.
\<close>

theorem sync_failure_clears_pending_witness:
  "petStore_syncToServer (online_env flaky_gateway) pending_pets =
     (pending_pets\<lparr>pets := [milo_local, luna_server, rex], pendingChanges := False,
        lastSyncedAt := Some ''2023-11-14T22:13:20.000Z''\<rparr>,
      [DbCreate ''pets'' milo_local, DbCreate ''pets'' luna_local]) \<and>
   p_id milo_local = ''local_1700000000000'' \<and>
   petStore_syncToServer (online_env assigning_gateway)
     (fst (petStore_syncToServer (online_env flaky_gateway) pending_pets)) =
     (fst (petStore_syncToServer (online_env flaky_gateway) pending_pets), []) \<and>
   pets (fst (petStore_syncToServer (online_env failing_gateway) pending_pets))
     = [milo_local, luna_local, rex] \<and>
   petStore_syncToServer (online_env assigning_gateway)
     (fst (petStore_syncToServer (online_env failing_gateway) pending_pets)) =
     (fst (petStore_syncToServer (online_env failing_gateway) pending_pets), [])"
proof -
  have p: "pendingChanges pending_pets" by (simp add: pending_pets_def)
  have e: "current_user (online_env flaky_gateway)" "supabase_configured (online_env flaky_gateway)"
    "\<forall>k. \<exists>r. db_answer (online_env flaky_gateway) k = Resolved r"
    by (simp_all add: online_env_def flaky_gateway_def gateway_ok_def gateway_error_def)
  have f: "current_user (online_env failing_gateway :: pet env)"
    "supabase_configured (online_env failing_gateway :: pet env)"
    "\<forall>k. \<exists>r. db_answer (online_env failing_gateway :: pet env) k = Resolved r"
    "\<forall>k. gateway_failed (db_answer (online_env failing_gateway :: pet env) k)"
    by (simp_all add: online_env_def failing_gateway_def gateway_error_def gateway_failed_def)
  note t1 = sync_failure_clears_pending[OF p e, of "online_env assigning_gateway"]
  note t2 = sync_failure_clears_pending[OF p f(1-3), of "online_env assigning_gateway"]
  have a: "petStore_syncToServer (online_env flaky_gateway) pending_pets =
     (pending_pets\<lparr>pets := [milo_local, luna_server, rex], pendingChanges := False,
        lastSyncedAt := Some ''2023-11-14T22:13:20.000Z''\<rparr>,
      [DbCreate ''pets'' milo_local, DbCreate ''pets'' luna_local])"
    by (simp add: petStore_syncToServer_def getCurrentUser_def online_env_def flaky_gateway_def
        gateway_ok_def gateway_error_def pending_pets_def milo_server_def luna_server_def
        milo_local_def luna_local_def rex_def tom_def startsWith_def Let_def)
  have b: "p_id milo_local = ''local_1700000000000''" by (simp add: milo_local_def)
  from t1 have c: "petStore_syncToServer (online_env assigning_gateway)
     (fst (petStore_syncToServer (online_env flaky_gateway) pending_pets)) =
     (fst (petStore_syncToServer (online_env flaky_gateway) pending_pets), [])"
    by (simp add: Let_def)
  from t2 f(4) have d: "pets (fst (petStore_syncToServer (online_env failing_gateway) pending_pets))
     = [milo_local, luna_local, rex]"
    by (simp add: Let_def pending_pets_def)
  from t2 have g: "petStore_syncToServer (online_env assigning_gateway)
     (fst (petStore_syncToServer (online_env failing_gateway) pending_pets)) =
     (fst (petStore_syncToServer (online_env failing_gateway) pending_pets), [])"
    by (simp add: Let_def)
  from a b c d g show ?thesis by blast
qed


end
